theory Spec2Isabelle
  imports Main
begin

section \<open>Coroutine handles, exceptions and the \<open>co_await\<close> protocol\<close>

text \<open>
  A data member \<open>name_\<close> of the source is written \<open>name'\<close> throughout: an Isabelle
  name cannot end in an underscore.

  A \<open>std::coroutine_handle<>\<close> is the address of a coroutine frame; the null handle is
  \<open>None\<close> where the source can hold one.
\<close>

type_synonym coroutine_handle = nat

text \<open>
  The \<open>what()\<close> strings of the \<open>std::runtime_error\<close>s of \<open>channels.h\<close> are Chinese
  literals; each is a constructor here, in the order they appear in the source:
  \<^item> \<open>send_on_closed\<close>: "channel closed, cannot send data" (\<open>SendAwaiter::await_suspend\<close>);
  \<^item> \<open>send_failed_closed\<close>: "channel closed, send failed" (\<open>SendAwaiter::await_resume\<close>);
  \<^item> \<open>receive_on_closed\<close>: "channel closed, cannot receive data"
    (\<open>ReceiveAwaiter::await_resume\<close>);
  \<^item> \<open>receive_abnormal\<close>: "receive operation abnormal" (\<open>ReceiveAwaiter::await_resume\<close>,
    under the comment "this case should not happen").
\<close>

datatype message = send_on_closed | send_failed_closed | receive_on_closed | receive_abnormal
  | other_message string

text \<open>
  Thrown values. The first three are classes derived from \<open>std::exception\<close>;
  \<open>thrown_value\<close> is anything else a \<open>throw\<close> can carry.
\<close>

datatype exn = runtime_error message | bad_variant_access | std_exception string
  | thrown_value nat

fun derived_from_std_exception :: "exn \<Rightarrow> bool" where
  "derived_from_std_exception (thrown_value _) = False"
| "derived_from_std_exception _ = True"

text \<open>
  What \<open>co_await e\<close> does to the awaiting coroutine (C++20 [expr.await]): when
  \<open>await_ready()\<close> is true, \<open>await_suspend\<close> is not called and the value of the
  expression is \<open>await_resume()\<close>, which may throw; otherwise the coroutine is suspended
  and \<open>await_suspend(h)\<close> is called. A \<open>void\<close> \<open>await_suspend\<close> that returns leaves the
  coroutine suspended; one that throws resumes it with that exception.
\<close>

datatype 'r co_await = Completes "exn + 'r" | Stays_suspended

section \<open>Channel (channels.h)\<close>

datatype 'a SendWaiter = SendWaiter (waiter_handle: coroutine_handle) (waiter_value: 'a)

text \<open>
  The three \<open>std::queue\<close>s are lists: \<open>push\<close> appends, \<open>front\<close> is the head, \<open>pop\<close> drops
  the head. The mutex is not modelled: every member function below runs as one step.
\<close>

record 'a Channel =
  buffer' :: "'a list"
  send_waiters' :: "'a SendWaiter list"
  receive_waiters' :: "coroutine_handle list"
  capacity' :: nat
  closed' :: bool

definition make_channel :: "nat \<Rightarrow> 'a Channel" where
  "make_channel n =
     \<lparr>buffer' = [], send_waiters' = [], receive_waiters' = [], capacity' = n,
      closed' = False\<rparr>"

record 'a SendAwaiter =
  value' :: 'a
  receiver_result' :: "'a option"

definition send :: "'a \<Rightarrow> 'a SendAwaiter" where
  "send v = \<lparr>value' = v, receiver_result' = None\<rparr>"

definition SendAwaiter_await_ready :: "'a Channel \<Rightarrow> bool" where
  "SendAwaiter_await_ready ch =
     (\<not> closed' ch \<and> (length (buffer' ch) < capacity' ch \<or> receive_waiters' ch \<noteq> []))"

text \<open>
  \<open>await_suspend\<close> returns the awaiter, the channel and the handles it resumed, in order.
  The value handed to a waiting receiver is stored in the sender's own
  \<open>receiver_result'\<close>, as in the source.
\<close>

definition SendAwaiter_await_suspend ::
  "coroutine_handle \<Rightarrow> 'a SendAwaiter \<Rightarrow> 'a Channel \<Rightarrow>
   exn + ('a SendAwaiter \<times> 'a Channel \<times> coroutine_handle list)" where
  "SendAwaiter_await_suspend h aw ch =
     (if closed' ch then Inl (runtime_error send_on_closed)
      else case receive_waiters' ch of
        receiver # rest \<Rightarrow>
          Inr (aw\<lparr>receiver_result' := Some (value' aw)\<rparr>, ch\<lparr>receive_waiters' := rest\<rparr>,
               [receiver])
      | [] \<Rightarrow>
          if length (buffer' ch) < capacity' ch
          then Inr (aw, ch\<lparr>buffer' := buffer' ch @ [value' aw]\<rparr>, [])
          else Inr (aw, ch\<lparr>send_waiters' := send_waiters' ch @ [SendWaiter h (value' aw)]\<rparr>,
                    []))"

definition SendAwaiter_await_resume :: "'a Channel \<Rightarrow> exn + unit" where
  "SendAwaiter_await_resume ch =
     (if closed' ch then Inl (runtime_error send_failed_closed) else Inr ())"

record 'a ReceiveAwaiter =
  result' :: "'a option"

definition receive :: "'a ReceiveAwaiter" where
  "receive = \<lparr>result' = None\<rparr>"

definition ReceiveAwaiter_await_ready :: "'a Channel \<Rightarrow> bool" where
  "ReceiveAwaiter_await_ready ch =
     (buffer' ch \<noteq> [] \<or> send_waiters' ch \<noteq> [] \<or> closed' ch)"

definition ReceiveAwaiter_await_suspend ::
  "coroutine_handle \<Rightarrow> 'a ReceiveAwaiter \<Rightarrow> 'a Channel \<Rightarrow>
   'a ReceiveAwaiter \<times> 'a Channel \<times> coroutine_handle list" where
  "ReceiveAwaiter_await_suspend h aw ch =
     (case buffer' ch of
        v # vs \<Rightarrow>
          (case send_waiters' ch of
             sender # rest \<Rightarrow>
               (aw\<lparr>result' := Some v\<rparr>,
                ch\<lparr>buffer' := vs @ [waiter_value sender], send_waiters' := rest\<rparr>,
                [waiter_handle sender])
           | [] \<Rightarrow> (aw\<lparr>result' := Some v\<rparr>, ch\<lparr>buffer' := vs\<rparr>, []))
      | [] \<Rightarrow>
          (case send_waiters' ch of
             sender # rest \<Rightarrow>
               (aw\<lparr>result' := Some (waiter_value sender)\<rparr>, ch\<lparr>send_waiters' := rest\<rparr>,
                [waiter_handle sender])
           | [] \<Rightarrow>
               if closed' ch then (aw, ch, [])
               else (aw, ch\<lparr>receive_waiters' := receive_waiters' ch @ [h]\<rparr>, [])))"

definition ReceiveAwaiter_await_resume :: "'a ReceiveAwaiter \<Rightarrow> 'a Channel \<Rightarrow> exn + 'a" where
  "ReceiveAwaiter_await_resume aw ch =
     (case result' aw of
        Some v \<Rightarrow> Inr v
      | None \<Rightarrow>
          if closed' ch then Inl (runtime_error receive_on_closed)
          else Inl (runtime_error receive_abnormal))"

text \<open>
  \<open>close\<close> returns the channel and the handles it resumed: every waiting receiver, then
  every waiting sender.
\<close>

definition close :: "'a Channel \<Rightarrow> 'a Channel \<times> coroutine_handle list" where
  "close ch =
     (if closed' ch then (ch, [])
      else (ch\<lparr>closed' := True, receive_waiters' := [], send_waiters' := []\<rparr>,
            receive_waiters' ch @ map waiter_handle (send_waiters' ch)))"

text \<open>
  \<open>co_await channel.send(v)\<close> and \<open>co_await channel.receive()\<close> in the coroutine with
  handle \<open>h\<close>, with no other thread between \<open>await_ready\<close> and what follows it. The
  result is the outcome for the awaiting coroutine, the awaiter, the channel and the
  handles resumed.
\<close>

definition co_await_send ::
  "coroutine_handle \<Rightarrow> 'a \<Rightarrow> 'a Channel \<Rightarrow>
   unit co_await \<times> 'a SendAwaiter \<times> 'a Channel \<times> coroutine_handle list" where
  "co_await_send h v ch =
     (if SendAwaiter_await_ready ch
      then (Completes (SendAwaiter_await_resume ch), send v, ch, [])
      else case SendAwaiter_await_suspend h (send v) ch of
        Inl e \<Rightarrow> (Completes (Inl e), send v, ch, [])
      | Inr (aw, ch', resumed) \<Rightarrow> (Stays_suspended, aw, ch', resumed))"

definition co_await_receive ::
  "coroutine_handle \<Rightarrow> 'a Channel \<Rightarrow>
   'a co_await \<times> 'a ReceiveAwaiter \<times> 'a Channel \<times> coroutine_handle list" where
  "co_await_receive h ch =
     (if ReceiveAwaiter_await_ready ch
      then (Completes (ReceiveAwaiter_await_resume receive ch), receive, ch, [])
      else case ReceiveAwaiter_await_suspend h receive ch of
        (aw, ch', resumed) \<Rightarrow> (Stays_suspended, aw, ch', resumed))"

text \<open>
  A producer that sends the values of a list in order, as \<open>simple_producer\<close> of
  \<open>examples/05_channels.cpp\<close> does: it goes on to the next value while each
  \<open>co_await channel->send(value)\<close> returns, and stops at the first one that throws or
  leaves it suspended. The result is the outcome of every send made and the channel.
\<close>

fun producer_sends ::
  "coroutine_handle \<Rightarrow> 'a list \<Rightarrow> 'a Channel \<Rightarrow> unit co_await list \<times> 'a Channel" where
  "producer_sends h [] ch = ([], ch)"
| "producer_sends h (v # vs) ch =
     (case co_await_send h v ch of
        (Completes (Inr u), aw, ch', resumed) \<Rightarrow>
          (case producer_sends h vs ch' of (rs, ch'') \<Rightarrow> (Completes (Inr u) # rs, ch''))
      | (r, aw, ch', resumed) \<Rightarrow> ([r], ch'))"

section \<open>Task (task.h)\<close>

text \<open>
  The body of a coroutine, as far as its caller can observe it: observable side effects
  (an \<open>event\<close> each, appended to a log), suspension points inside the body at which it
  stays suspended until it is resumed again, and its end by \<open>co_return v\<close> or by an
  exception that leaves the body.
\<close>

type_synonym event = nat

datatype 'a body =
    Effect event "'a body"
  | Suspend "'a body"
  | Co_return 'a
  | Throw exn

datatype 'a body_stop = Suspended_at "'a body" | Returned 'a | Threw exn

fun run_body :: "'a body \<Rightarrow> event list \<Rightarrow> 'a body_stop \<times> event list" where
  "run_body (Effect e k) w = run_body k (w @ [e])"
| "run_body (Suspend k) w = (Suspended_at k, w)"
| "run_body (Co_return v) w = (Returned v, w)"
| "run_body (Throw x) w = (Threw x, w)"

text \<open>\<open>std::variant<std::monostate, T, std::exception_ptr>\<close>; it starts as \<open>monostate\<close>.\<close>

datatype 'a variant = monostate | holds_T 'a | holds_exception_ptr exn

record 'a promise_type =
  result' :: "'a variant"
  continuation' :: "coroutine_handle option"

text \<open>\<open>std::suspend_always\<close> and \<open>std::suspend_never\<close>, and their \<open>await_ready\<close>.\<close>

datatype std_suspend = suspend_always | suspend_never

fun std_suspend_await_ready :: "std_suspend \<Rightarrow> bool" where
  "std_suspend_await_ready suspend_always = False"
| "std_suspend_await_ready suspend_never = True"

definition initial_suspend :: std_suspend where
  "initial_suspend = suspend_always"

record FinalAwaiter =
  continuation :: "coroutine_handle option"

definition final_suspend :: "('a, 'z) promise_type_scheme \<Rightarrow> FinalAwaiter" where
  "final_suspend p = \<lparr>continuation = continuation' p\<rparr>"

text \<open>
  \<open>FinalAwaiter::await_ready\<close> is false, so \<open>await_suspend\<close> always runs. The handle it
  returns is the coroutine resumed next; \<open>None\<close> is \<open>std::noop_coroutine()\<close>, which
  gives control back to the resumer.
\<close>

definition FinalAwaiter_await_suspend :: "FinalAwaiter \<Rightarrow> coroutine_handle option" where
  "FinalAwaiter_await_suspend fa =
     (case continuation fa of Some c \<Rightarrow> Some c | None \<Rightarrow> None)"

definition return_value ::
  "'a \<Rightarrow> ('a, 'z) promise_type_scheme \<Rightarrow> ('a, 'z) promise_type_scheme" where
  "return_value v p = p\<lparr>promise_type.result' := holds_T v\<rparr>"

definition unhandled_exception ::
  "exn \<Rightarrow> ('a, 'z) promise_type_scheme \<Rightarrow> ('a, 'z) promise_type_scheme" where
  "unhandled_exception e p = p\<lparr>promise_type.result' := holds_exception_ptr e\<rparr>"

text \<open>
  \<open>get_result\<close>: \<open>std::rethrow_exception\<close> when the variant holds an exception, else
  \<open>std::get<T>\<close>, which throws \<open>std::bad_variant_access\<close> when the variant does not hold
  a \<open>T\<close>.
\<close>

definition get_result :: "('a, 'z) promise_type_scheme \<Rightarrow> exn + 'a" where
  "get_result p =
     (case promise_type.result' p of
        holds_exception_ptr e \<Rightarrow> Inl e
      | holds_T v \<Rightarrow> Inr v
      | monostate \<Rightarrow> Inl bad_variant_access)"

text \<open>
  The coroutine frame of a \<open>Task<T>\<close>: its promise, and where it is suspended with the
  part of the body still to run.
\<close>

datatype 'a suspension =
    at_initial_suspend "'a body"
  | at_suspend "'a body"
  | at_final_suspend

record 'a coroutine =
  promise :: "'a promise_type"
  suspended :: "'a suspension"

definition handle_done :: "'a coroutine \<Rightarrow> bool" where
  "handle_done c = (case suspended c of at_final_suspend \<Rightarrow> True | _ \<Rightarrow> False)"

text \<open>
  What the language does at the end of the body: \<open>co_return v\<close> calls \<open>return_value\<close>, an
  exception leaving the body calls \<open>unhandled_exception\<close>, and then
  \<open>co_await final_suspend()\<close> suspends the coroutine at its final suspend point and
  transfers control to the handle \<open>await_suspend\<close> returned. The third component is
  that handle.
\<close>

definition co_await_final_suspend ::
  "'a coroutine \<Rightarrow> event list \<Rightarrow> 'a coroutine \<times> event list \<times> coroutine_handle option" where
  "co_await_final_suspend c w =
     (c\<lparr>suspended := at_final_suspend\<rparr>, w,
      FinalAwaiter_await_suspend (final_suspend (promise c)))"

definition run_coroutine ::
  "'a coroutine \<Rightarrow> 'a body \<Rightarrow> event list \<Rightarrow>
   'a coroutine \<times> event list \<times> coroutine_handle option" where
  "run_coroutine c b w =
     (case run_body b w of
        (Suspended_at k, w') \<Rightarrow> (c\<lparr>suspended := at_suspend k\<rparr>, w', None)
      | (Returned v, w') \<Rightarrow>
          co_await_final_suspend (c\<lparr>promise := return_value v (promise c)\<rparr>) w'
      | (Threw e, w') \<Rightarrow>
          co_await_final_suspend (c\<lparr>promise := unhandled_exception e (promise c)\<rparr>) w')"

text \<open>
  Calling a coroutine function that returns \<open>Task<T>\<close>: the frame and its promise are
  created, \<open>get_return_object\<close> makes the \<open>Task\<close>, and \<open>co_await initial_suspend()\<close>
  decides whether the body starts now.
\<close>

definition create_Task ::
  "'a body \<Rightarrow> event list \<Rightarrow> 'a coroutine \<times> event list \<times> coroutine_handle option" where
  "create_Task b w =
     (let c = \<lparr>promise = \<lparr>result' = monostate, continuation' = None\<rparr>,
               suspended = at_initial_suspend b\<rparr>
      in if std_suspend_await_ready initial_suspend then run_coroutine c b w
         else (c, w, None))"

text \<open>
  \<open>handle.resume()\<close>. Resuming a coroutine suspended at its final suspend point is
  undefined behaviour: \<open>None\<close>.
\<close>

definition handle_resume ::
  "'a coroutine \<Rightarrow> event list \<Rightarrow>
   ('a coroutine \<times> event list \<times> coroutine_handle option) option" where
  "handle_resume c w =
     (case suspended c of
        at_initial_suspend b \<Rightarrow> Some (run_coroutine c b w)
      | at_suspend b \<Rightarrow> Some (run_coroutine c b w)
      | at_final_suspend \<Rightarrow> None)"

definition Task_done :: "'a coroutine \<Rightarrow> bool" where
  "Task_done c = handle_done c"

definition Task_resume ::
  "'a coroutine \<Rightarrow> event list \<Rightarrow>
   ('a coroutine \<times> event list \<times> coroutine_handle option) option" where
  "Task_resume c w = (if \<not> handle_done c then handle_resume c w else Some (c, w, None))"

definition TaskAwaiter_await_ready :: "'a coroutine \<Rightarrow> bool" where
  "TaskAwaiter_await_ready c = handle_done c"

definition TaskAwaiter_await_suspend ::
  "coroutine_handle \<Rightarrow> 'a coroutine \<Rightarrow> event list \<Rightarrow>
   ('a coroutine \<times> event list \<times> coroutine_handle option) option" where
  "TaskAwaiter_await_suspend awaiting_coro c w =
     handle_resume (c\<lparr>promise := (promise c)\<lparr>continuation' := Some awaiting_coro\<rparr>\<rparr>) w"

definition TaskAwaiter_await_resume :: "'a coroutine \<Rightarrow> exn + 'a" where
  "TaskAwaiter_await_resume c = get_result (promise c)"

text \<open>
  \<open>co_await task\<close> in the coroutine with handle \<open>awaiting_coro\<close>. When the task reaches
  its final suspend point inside \<open>await_suspend\<close>, its \<open>FinalAwaiter\<close> hands control to
  the continuation, and the awaiting coroutine goes on with \<open>await_resume()\<close>.
\<close>

definition co_await_Task ::
  "coroutine_handle \<Rightarrow> 'a coroutine \<Rightarrow> event list \<Rightarrow>
   ('a co_await \<times> 'a coroutine \<times> event list) option" where
  "co_await_Task awaiting_coro c w =
     (if TaskAwaiter_await_ready c then Some (Completes (TaskAwaiter_await_resume c), c, w)
      else case TaskAwaiter_await_suspend awaiting_coro c w of
        None \<Rightarrow> None
      | Some (c', w', next) \<Rightarrow>
          if next = Some awaiting_coro
          then Some (Completes (TaskAwaiter_await_resume c'), c', w')
          else Some (Stays_suspended, c', w'))"

section \<open>Scheduler (scheduler.h)\<close>

record Scheduler_Task =
  handle :: "coroutine_handle option"
  priority :: int

text \<open>\<open>Task::operator<\<close>.\<close>

definition Task_less :: "Scheduler_Task \<Rightarrow> Scheduler_Task \<Rightarrow> bool" where
  "Task_less a b = (priority a < priority b)"

text \<open>
  \<open>std::priority_queue<Task>\<close> is a list of the entries in the order they were put in.
  \<open>top\<close> is an entry that \<open>operator<\<close> puts below no other entry. The standard does not
  say which of several such entries it is; here it is the one put in first. \<open>top\<close> and
  \<open>pop\<close> of an empty queue are undefined behaviour (\<open>None\<close>, and the queue left as it is);
  the source calls them on a non-empty queue only.
\<close>

fun largest :: "Scheduler_Task \<Rightarrow> Scheduler_Task list \<Rightarrow> Scheduler_Task" where
  "largest m [] = m"
| "largest m (x # xs) = largest (if Task_less m x then x else m) xs"

definition priority_queue_top :: "Scheduler_Task list \<Rightarrow> Scheduler_Task option" where
  "priority_queue_top q = (case q of [] \<Rightarrow> None | x # xs \<Rightarrow> Some (largest x xs))"

definition priority_queue_pop :: "Scheduler_Task list \<Rightarrow> Scheduler_Task list" where
  "priority_queue_pop q = (case priority_queue_top q of None \<Rightarrow> q | Some t \<Rightarrow> remove1 t q)"

definition priority_queue_emplace ::
  "coroutine_handle option \<Rightarrow> int \<Rightarrow> Scheduler_Task list \<Rightarrow> Scheduler_Task list" where
  "priority_queue_emplace h p q = q @ [\<lparr>handle = h, priority = p\<rparr>]"

text \<open>
  The scheduler's state. The threads, the mutex and the condition variable are not
  modelled: each member function runs as one step.
\<close>

record Scheduler =
  task_queue' :: "Scheduler_Task list"
  thread_count' :: nat
  running' :: bool
  stop_requested' :: bool

text \<open>The constructor; \<open>hardware_concurrency\<close> is what the platform reports.\<close>

definition new_Scheduler :: "nat \<Rightarrow> nat \<Rightarrow> Scheduler" where
  "new_Scheduler hardware_concurrency thread_count =
     \<lparr>task_queue' = [],
      thread_count' =
        (if thread_count = 0
         then (if hardware_concurrency = 0 then 4 else hardware_concurrency)
         else thread_count),
      running' = False, stop_requested' = False\<rparr>"

definition start :: "Scheduler \<Rightarrow> Scheduler" where
  "start s = (if running' s then s else s\<lparr>running' := True, stop_requested' := False\<rparr>)"

definition stop :: "Scheduler \<Rightarrow> Scheduler" where
  "stop s = (if \<not> running' s then s else s\<lparr>stop_requested' := True, running' := False\<rparr>)"

definition is_running :: "Scheduler \<Rightarrow> bool" where
  "is_running s = running' s"

definition queue_size :: "Scheduler \<Rightarrow> nat" where
  "queue_size s = length (task_queue' s)"

definition default_priority :: int where
  "default_priority = 0"

text \<open>
  The handles a scheduler holds are type-erased, so what \<open>handle.done()\<close> answers and
  what \<open>handle.resume()\<close> does are parameters: \<open>done_of c w\<close> in the world \<open>w\<close>, and
  \<open>resume_of c w\<close>, the exception that leaves \<open>resume()\<close> (if any) and the world after
  it. A resumed coroutine does not call back into the scheduler that resumes it.

  \<open>schedule\<close> returns the exception that leaves it, the scheduler and the world.
\<close>

definition schedule ::
  "(coroutine_handle \<Rightarrow> 'w \<Rightarrow> bool) \<Rightarrow> (coroutine_handle \<Rightarrow> 'w \<Rightarrow> exn option \<times> 'w) \<Rightarrow>
   coroutine_handle option \<Rightarrow> int \<Rightarrow> Scheduler \<Rightarrow> 'w \<Rightarrow> exn option \<times> Scheduler \<times> 'w" where
  "schedule done_of resume_of h p s w =
     (if \<not> running' s then
        (case h of
           Some c \<Rightarrow>
             if \<not> done_of c w then (case resume_of c w of (x, w') \<Rightarrow> (x, s, w'))
             else (None, s, w)
         | None \<Rightarrow> (None, s, w))
      else (None, s\<lparr>task_queue' := priority_queue_emplace h p (task_queue' s)\<rparr>, w))"

text \<open>
  One turn of the loop of \<open>worker_thread\<close>. \<open>Waits\<close>: the predicate of
  \<open>condition_.wait\<close> is false and the thread sleeps. \<open>Breaks\<close>: the loop is left.
  \<open>Continues (x, s, w)\<close>: the turn is over with the scheduler \<open>s\<close> and the world \<open>w\<close>,
  and \<open>x\<close> is the exception that left the turn, if any.
\<close>

datatype 'a iteration = Waits | Breaks | Continues 'a

definition wait_predicate :: "Scheduler \<Rightarrow> bool" where
  "wait_predicate s = (task_queue' s \<noteq> [] \<or> stop_requested' s)"

definition try_resume ::
  "(coroutine_handle \<Rightarrow> 'w \<Rightarrow> bool) \<Rightarrow> (coroutine_handle \<Rightarrow> 'w \<Rightarrow> exn option \<times> 'w) \<Rightarrow>
   coroutine_handle \<Rightarrow> 'w \<Rightarrow> exn option \<times> 'w" where
  "try_resume done_of resume_of c w = (if \<not> done_of c w then resume_of c w else (None, w))"

text \<open>
  The two handlers after the \<open>try\<close> block: \<open>catch (const std::exception&)\<close> takes what
  derives from \<open>std::exception\<close>, \<open>catch (...)\<close> the rest; both bodies are empty.
\<close>

definition catch_handlers :: "exn option \<times> 'w \<Rightarrow> exn option \<times> 'w" where
  "catch_handlers r =
     (case r of
        (None, w) \<Rightarrow> (None, w)
      | (Some e, w) \<Rightarrow> if derived_from_std_exception e then (None, w) else (None, w))"

definition execute_task ::
  "(coroutine_handle \<Rightarrow> 'w \<Rightarrow> bool) \<Rightarrow> (coroutine_handle \<Rightarrow> 'w \<Rightarrow> exn option \<times> 'w) \<Rightarrow>
   Scheduler_Task \<Rightarrow> 'w \<Rightarrow> exn option \<times> 'w" where
  "execute_task done_of resume_of task w =
     (case handle task of
        None \<Rightarrow> (None, w)
      | Some c \<Rightarrow> catch_handlers (try_resume done_of resume_of c w))"

definition worker_iteration ::
  "(coroutine_handle \<Rightarrow> 'w \<Rightarrow> bool) \<Rightarrow> (coroutine_handle \<Rightarrow> 'w \<Rightarrow> exn option \<times> 'w) \<Rightarrow>
   Scheduler \<Rightarrow> 'w \<Rightarrow> (exn option \<times> Scheduler \<times> 'w) iteration" where
  "worker_iteration done_of resume_of s w =
     (if \<not> wait_predicate s then Waits
      else if stop_requested' s then Breaks
      else case priority_queue_top (task_queue' s) of
        Some task \<Rightarrow>
          (case execute_task done_of resume_of task w of
             (x, w') \<Rightarrow>
               Continues (x, s\<lparr>task_queue' := priority_queue_pop (task_queue' s)\<rparr>, w'))
      | None \<Rightarrow>
          (case execute_task done_of resume_of \<lparr>handle = None, priority = 0\<rparr> w of
             (x, w') \<Rightarrow> Continues (x, s, w')))"

lemma largest_in_set: "largest m xs \<in> set (m # xs)"
  by (induction xs arbitrary: m) auto

lemma priority_queue_top_in_set: "priority_queue_top q = Some t \<Longrightarrow> t \<in> set q"
  using largest_in_set by (auto simp: priority_queue_top_def split: list.splits)

lemma priority_queue_top_None: "(priority_queue_top q = None) = (q = [])"
  by (cases q) (simp_all add: priority_queue_top_def)

lemma length_priority_queue_pop:
  assumes "q \<noteq> []"
  shows "length (priority_queue_pop q) < length q"
proof -
  from assms obtain t where t: "priority_queue_top q = Some t"
    by (cases q) (auto simp: priority_queue_top_def)
  then have mem: "t \<in> set q" by (rule priority_queue_top_in_set)
  from assms have "0 < length q" by simp
  with mem have "length (remove1 t q) < length q"
    by (simp add: length_remove1)
  with t show ?thesis by (simp add: priority_queue_pop_def)
qed

lemma worker_iteration_shrinks:
  "worker_iteration done_of resume_of s w = Continues (x, s', w') \<Longrightarrow>
   length (task_queue' s') < length (task_queue' s)"
  by (auto simp: worker_iteration_def wait_predicate_def length_priority_queue_pop
      priority_queue_top_None split: if_splits option.splits prod.splits)

text \<open>
  The loop of \<open>worker_thread\<close>, run by one thread with no other thread at work: it goes
  on turn after turn until it sleeps on the condition variable (\<open>Waits\<close>), leaves the loop
  (\<open>Breaks\<close>), or an exception leaves a turn (\<open>Continues\<close> with that exception: the thread
  function ends by it). The result is how it ended, the scheduler and the world.
\<close>

function worker_thread ::
  "(coroutine_handle \<Rightarrow> 'w \<Rightarrow> bool) \<Rightarrow> (coroutine_handle \<Rightarrow> 'w \<Rightarrow> exn option \<times> 'w) \<Rightarrow>
   Scheduler \<Rightarrow> 'w \<Rightarrow> exn option iteration \<times> Scheduler \<times> 'w" where
  "worker_thread done_of resume_of s w =
     (case worker_iteration done_of resume_of s w of
        Waits \<Rightarrow> (Waits, s, w)
      | Breaks \<Rightarrow> (Breaks, s, w)
      | Continues (Some e, s', w') \<Rightarrow> (Continues (Some e), s', w')
      | Continues (None, s', w') \<Rightarrow> worker_thread done_of resume_of s' w')"
  by pat_completeness auto
termination
  by (relation "measure (\<lambda>(done_of, resume_of, s, w). length (task_queue' s))")
    (auto dest: worker_iteration_shrinks)

declare worker_thread.simps [simp del]

section \<open>ScheduledTask (scheduler.h)\<close>

text \<open>
  The promise of \<open>ScheduledTask<T>\<close> has the members of the promise of \<open>Task<T>\<close> and two
  more. A \<open>Scheduler*\<close> is an address in a store of schedulers, \<open>None\<close> the null pointer.
  \<open>ScheduledTask<void>\<close> has the same \<open>final_suspend\<close> and \<open>set_scheduler\<close>.
\<close>

record 'a ScheduledTask_promise_type = "'a promise_type" +
  scheduler' :: "nat option"
  priority' :: int

definition set_scheduler ::
  "nat option \<Rightarrow> int \<Rightarrow> 'a ScheduledTask_promise_type \<Rightarrow> 'a ScheduledTask_promise_type" where
  "set_scheduler sch p pr = pr\<lparr>scheduler' := sch, priority' := p\<rparr>"

record ScheduledTask_FinalAwaiter = FinalAwaiter +
  scheduler :: "nat option"

definition ScheduledTask_final_suspend ::
  "'a ScheduledTask_promise_type \<Rightarrow> ScheduledTask_FinalAwaiter" where
  "ScheduledTask_final_suspend p = \<lparr>continuation = continuation' p, scheduler = scheduler' p\<rparr>"

text \<open>
  \<open>FinalAwaiter::await_suspend\<close> of \<open>ScheduledTask\<close>. The result is the exception that
  leaves the call to \<open>schedule\<close> (the function is \<open>noexcept\<close>: such an exception ends the
  program), the handle returned (\<open>None\<close> is \<open>std::noop_coroutine()\<close>), the store of
  schedulers and the world.
\<close>

definition ScheduledTask_FinalAwaiter_await_suspend ::
  "(coroutine_handle \<Rightarrow> 'w \<Rightarrow> bool) \<Rightarrow> (coroutine_handle \<Rightarrow> 'w \<Rightarrow> exn option \<times> 'w) \<Rightarrow>
   ScheduledTask_FinalAwaiter \<Rightarrow> (nat \<Rightarrow> Scheduler) \<Rightarrow> 'w \<Rightarrow>
   exn option \<times> coroutine_handle option \<times> (nat \<Rightarrow> Scheduler) \<times> 'w" where
  "ScheduledTask_FinalAwaiter_await_suspend done_of resume_of fa schedulers w =
     (case continuation fa of
        Some c \<Rightarrow>
          (case scheduler fa of
             Some a \<Rightarrow>
               if is_running (schedulers a)
               then (case schedule done_of resume_of (Some c) default_priority (schedulers a) w of
                       (x, s', w') \<Rightarrow> (x, None, schedulers(a := s'), w'))
               else (None, Some c, schedulers, w)
           | None \<Rightarrow> (None, Some c, schedulers, w))
      | None \<Rightarrow> (None, None, schedulers, w))"

text \<open>
  The end of a \<open>ScheduledTask\<close> coroutine with promise \<open>p\<close>: \<open>co_await final_suspend()\<close>,
  whose \<open>await_ready\<close> is false.
\<close>

definition ScheduledTask_co_await_final_suspend ::
  "(coroutine_handle \<Rightarrow> 'w \<Rightarrow> bool) \<Rightarrow> (coroutine_handle \<Rightarrow> 'w \<Rightarrow> exn option \<times> 'w) \<Rightarrow>
   'a ScheduledTask_promise_type \<Rightarrow> (nat \<Rightarrow> Scheduler) \<Rightarrow> 'w \<Rightarrow>
   exn option \<times> coroutine_handle option \<times> (nat \<Rightarrow> Scheduler) \<times> 'w" where
  "ScheduledTask_co_await_final_suspend done_of resume_of p schedulers w =
     ScheduledTask_FinalAwaiter_await_suspend done_of resume_of
       (ScheduledTask_final_suspend p) schedulers w"

section \<open>Scheduler: the mutex (scheduler.h)\<close>

text \<open>
  \<open>mutex_\<close> is a \<open>std::mutex\<close>, which is not recursive. The functions of the scheduler
  above leave it out; here the scheduler has it as one more member, \<open>True\<close> when it is
  held, so that a resumed coroutine can call back into the scheduler that resumes it.
\<close>

record Scheduler_and_mutex =
  members :: Scheduler
  mutex' :: bool

text \<open>
  \<open>std::lock_guard<std::mutex> lock(mutex_)\<close>. One thread is at work, so a mutex that is
  held is held by the thread that now locks it: for \<open>std::mutex\<close> that is undefined
  behaviour, and the usual outcome is that the thread blocks for ever. \<open>None\<close>: the call
  does not return. The guard unlocks the mutex (\<open>unlock\<close>) where its scope is left.
\<close>

definition lock_guard :: "Scheduler_and_mutex \<Rightarrow> Scheduler_and_mutex option" where
  "lock_guard g = (if mutex' g then None else Some (g\<lparr>mutex' := True\<rparr>))"

definition unlock :: "Scheduler_and_mutex \<Rightarrow> Scheduler_and_mutex" where
  "unlock g = g\<lparr>mutex' := False\<rparr>"

text \<open>\<open>is_running\<close> and \<open>schedule\<close> with their \<open>lock_guard\<close>.\<close>

definition locking_is_running :: "Scheduler_and_mutex \<Rightarrow> (bool \<times> Scheduler_and_mutex) option" where
  "locking_is_running g =
     (case lock_guard g of
        None \<Rightarrow> None
      | Some g' \<Rightarrow> Some (running' (members g'), unlock g'))"

text \<open>
  In \<open>schedule\<close> the guard's scope holds the test of \<open>running_\<close> and both branches, so
  \<open>handle.resume()\<close> runs with the mutex held. What the resumed coroutine does is
  \<open>resume_in c g w\<close>: it gets the scheduler with its mutex, and returns the exception that
  leaves \<open>resume()\<close>, the scheduler and the world, or \<open>None\<close> when \<open>resume()\<close> does not
  return.
\<close>

definition locking_schedule ::
  "(coroutine_handle \<Rightarrow> 'w \<Rightarrow> bool) \<Rightarrow>
   (coroutine_handle \<Rightarrow> Scheduler_and_mutex \<Rightarrow> 'w \<Rightarrow> (exn option \<times> Scheduler_and_mutex \<times> 'w) option) \<Rightarrow>
   coroutine_handle option \<Rightarrow> int \<Rightarrow> Scheduler_and_mutex \<Rightarrow> 'w \<Rightarrow>
   (exn option \<times> Scheduler_and_mutex \<times> 'w) option" where
  "locking_schedule done_of resume_in h p g w =
     (case lock_guard g of
        None \<Rightarrow> None
      | Some g' \<Rightarrow>
          if \<not> running' (members g') then
            (case h of
               Some c \<Rightarrow>
                 if \<not> done_of c w then
                   (case resume_in c g' w of
                      None \<Rightarrow> None
                    | Some (x, g'', w') \<Rightarrow> Some (x, unlock g'', w'))
                 else Some (None, unlock g', w)
             | None \<Rightarrow> Some (None, unlock g', w))
          else Some (None,
                 unlock (g'\<lparr>members := (members g')\<lparr>task_queue' :=
                   priority_queue_emplace h p (task_queue' (members g'))\<rparr>\<rparr>), w))"

text \<open>A coroutine of the kind \<open>schedule\<close> above takes: it does not call the scheduler.\<close>

definition leaves_scheduler_alone ::
  "(coroutine_handle \<Rightarrow> 'w \<Rightarrow> exn option \<times> 'w) \<Rightarrow>
   coroutine_handle \<Rightarrow> Scheduler_and_mutex \<Rightarrow> 'w \<Rightarrow> (exn option \<times> Scheduler_and_mutex \<times> 'w) option" where
  "leaves_scheduler_alone resume_of c g w =
     (case resume_of c w of (x, w') \<Rightarrow> Some (x, g, w'))"

section \<open>Coroutines and callers used in the scenarios\<close>

text \<open>
  A world that is the list of the handles resumed so far, with coroutines that are never
  done. \<open>records_resume\<close> records the resumption and returns normally;
  \<open>throws_for m\<close> records it and then throws \<open>m c\<close> where \<open>m\<close> has an exception for
  the coroutine \<open>c\<close>.
\<close>

definition not_done :: "coroutine_handle \<Rightarrow> coroutine_handle list \<Rightarrow> bool" where
  "not_done c w = False"

definition records_resume ::
  "coroutine_handle \<Rightarrow> coroutine_handle list \<Rightarrow> exn option \<times> coroutine_handle list" where
  "records_resume c w = (None, w @ [c])"

definition throws_for ::
  "(coroutine_handle \<Rightarrow> exn option) \<Rightarrow> coroutine_handle \<Rightarrow> coroutine_handle list \<Rightarrow>
   exn option \<times> coroutine_handle list" where
  "throws_for m c w = (m c, w @ [c])"

text \<open>
  A coroutine that, when resumed, calls \<open>is_running()\<close> of the scheduler, as a coroutine
  does that \<open>co_await\<close>s a \<open>ScheduledTask\<close> with that scheduler attached
  (\<open>TaskAwaiter::await_suspend\<close>, which asks \<open>scheduler_->is_running()\<close>).
\<close>

definition asks_is_running ::
  "coroutine_handle \<Rightarrow> Scheduler_and_mutex \<Rightarrow> coroutine_handle list \<Rightarrow>
   (exn option \<times> Scheduler_and_mutex \<times> coroutine_handle list) option" where
  "asks_is_running c g w =
     (case locking_is_running g of
        None \<Rightarrow> None
      | Some (r, g') \<Rightarrow> Some (None, g', w @ [c]))"

text \<open>A store of schedulers with the scheduler \<open>s\<close> at every address.\<close>

definition store_of :: "Scheduler \<Rightarrow> nat \<Rightarrow> Scheduler" where
  "store_of s a = s"

text \<open>
  A caller that calls \<open>schedule(handle, priority)\<close> for each pair of a list in order, and
  stops at the first call an exception leaves.
\<close>

fun schedule_each ::
  "(coroutine_handle \<Rightarrow> 'w \<Rightarrow> bool) \<Rightarrow> (coroutine_handle \<Rightarrow> 'w \<Rightarrow> exn option \<times> 'w) \<Rightarrow>
   (coroutine_handle \<times> int) list \<Rightarrow> Scheduler \<Rightarrow> 'w \<Rightarrow> Scheduler \<times> 'w" where
  "schedule_each done_of resume_of [] s w = (s, w)"
| "schedule_each done_of resume_of ((h, p) # rest) s w =
     (case schedule done_of resume_of (Some h) p s w of
        (None, s', w') \<Rightarrow> schedule_each done_of resume_of rest s' w'
      | (Some e, s', w') \<Rightarrow> (s', w'))"

section \<open>Channel: what receive and send do\<close>

lemma co_await_receive_ready:
  "ReceiveAwaiter_await_ready ch \<Longrightarrow>
   co_await_receive h ch =
     (Completes (Inl (runtime_error (if closed' ch then receive_on_closed else receive_abnormal))),
      receive, ch, [])"
  by (simp add: co_await_receive_def ReceiveAwaiter_await_resume_def receive_def)

lemma co_await_send_ready:
  "SendAwaiter_await_ready ch \<Longrightarrow>
   co_await_send h v ch = (Completes (Inr ()), send v, ch, [])"
  by (simp add: co_await_send_def SendAwaiter_await_resume_def SendAwaiter_await_ready_def)

text \<open>
  Every state a channel reaches from \<open>make_channel\<close> by \<open>co_await send\<close>,
  \<open>co_await receive\<close> and \<open>close\<close> has an empty buffer: \<open>await_suspend\<close> of a sender
  is the only code that starts to fill it, and it runs only after \<open>await_ready\<close> has
  found no room.
\<close>

lemma buffer_stays_empty:
  assumes "buffer' ch = []"
  shows "buffer' (fst (snd (snd (co_await_send h v ch)))) = []"
    and "buffer' (fst (snd (snd (co_await_receive h ch)))) = []"
    and "buffer' (fst (close ch)) = []"
proof -
  show "buffer' (fst (snd (snd (co_await_send h v ch)))) = []"
    using assms
    by (auto simp: co_await_send_def SendAwaiter_await_ready_def
        SendAwaiter_await_suspend_def split: list.splits)
  show "buffer' (fst (snd (snd (co_await_receive h ch)))) = []"
    using assms
    by (auto simp: co_await_receive_def ReceiveAwaiter_await_ready_def
        ReceiveAwaiter_await_suspend_def split: list.splits)
  show "buffer' (fst (close ch)) = []"
    using assms by (simp add: close_def)
qed

text \<open>
  C1. The claim: with a non-empty buffer, \<open>receive()\<close> returns the front value at once
  and removes it, and a consumer of a producer that sent 1, 2, 3 receives 1, 2, 3. The
  code: on a channel of capacity 2 holding 1, 2 the receive does not suspend, but it
  throws "receive operation abnormal" and the buffer keeps both values. On a fresh
  channel of capacity 2 the three sends return and leave the buffer empty, and the
  consumer's receive then stays suspended in \<open>receive_waiters_\<close>; when the consumer waits
  first, the three sends return all the same, resume nobody and leave it waiting.
\<close>

theorem C1_receive_with_buffered_values_throws:
  "co_await_receive 9
     \<lparr>buffer' = [1, 2 :: int], send_waiters' = [], receive_waiters' = [], capacity' = 2,
      closed' = False\<rparr>
   = (Completes (Inl (runtime_error receive_abnormal)), receive,
      \<lparr>buffer' = [1, 2], send_waiters' = [], receive_waiters' = [], capacity' = 2,
       closed' = False\<rparr>, [])
   \<and> producer_sends 8 [1, 2, 3 :: int] (make_channel 2)
     = ([Completes (Inr ()), Completes (Inr ()), Completes (Inr ())], make_channel 2)
   \<and> co_await_receive 9 (make_channel 2 :: int Channel)
     = (Stays_suspended, receive,
        \<lparr>buffer' = [], send_waiters' = [], receive_waiters' = [9], capacity' = 2,
         closed' = False\<rparr>, [])
   \<and> producer_sends 8 [1, 2, 3 :: int]
        \<lparr>buffer' = [], send_waiters' = [], receive_waiters' = [9], capacity' = 2,
         closed' = False\<rparr>
     = ([Completes (Inr ()), Completes (Inr ()), Completes (Inr ())],
        \<lparr>buffer' = [], send_waiters' = [], receive_waiters' = [9], capacity' = 2,
         closed' = False\<rparr>)"
  by (simp add: co_await_receive_def co_await_send_def make_channel_def
      ReceiveAwaiter_await_ready_def ReceiveAwaiter_await_resume_def
      ReceiveAwaiter_await_suspend_def SendAwaiter_await_ready_def
      SendAwaiter_await_resume_def receive_def)

text \<open>
  C2. The claim: on an open channel with room in the buffer and no waiting receiver,
  \<open>send(value)\<close> returns at once and the value is then at the tail of the buffer; with a
  receiver waiting, the value is handed to that receiver. The code at two inputs: on a
  fresh channel of capacity 2 the send returns at once and the buffer is still empty;
  on a channel of capacity 0 in which the coroutine 9 has suspended in \<open>receive()\<close>, the
  send of 7 returns at once, resumes nobody, and 9 is still in \<open>receive_waiters_\<close>. In
  both the value is lost: \<open>await_ready\<close> is true, so \<open>await_suspend\<close> does not run.
\<close>

theorem C2_send_when_ready_stores_nothing:
  "co_await_send 8 (1 :: int) (make_channel 2) = (Completes (Inr ()), send 1, make_channel 2, [])
   \<and> co_await_receive 9 (make_channel 0 :: int Channel)
     = (Stays_suspended, receive,
        \<lparr>buffer' = [], send_waiters' = [], receive_waiters' = [9], capacity' = 0,
         closed' = False\<rparr>, [])
   \<and> co_await_send 8 (7 :: int)
        \<lparr>buffer' = [], send_waiters' = [], receive_waiters' = [9], capacity' = 0,
         closed' = False\<rparr>
     = (Completes (Inr ()), send 7,
        \<lparr>buffer' = [], send_waiters' = [], receive_waiters' = [9], capacity' = 0,
         closed' = False\<rparr>, [])"
  by (simp add: co_await_receive_def co_await_send_def make_channel_def
      ReceiveAwaiter_await_ready_def ReceiveAwaiter_await_suspend_def
      SendAwaiter_await_ready_def SendAwaiter_await_resume_def)




section \<open>ScheduledTask: the continuation at the end of the task\<close>

text \<open>
  C4, as the claim states it, fails. A task with the scheduler at address 0 (running,
  its queue empty) and priority 5 attached, and the coroutine 7 awaiting it: at the end
  of the task the scheduler's queue holds 7 with priority 0, which is not the scheduler
  that \<open>schedule(continuation, 5)\<close> would leave.
\<close>

theorem C4_counterexample:
  "fst (snd (snd (ScheduledTask_co_await_final_suspend not_done records_resume
        (set_scheduler (Some 0) 5
           \<lparr>result' = holds_T (1 :: int), continuation' = Some 7, scheduler' = None,
            priority' = 0\<rparr>)
        (store_of (start (new_Scheduler 4 1))) []))) 0
   \<noteq> fst (snd (schedule not_done records_resume (Some 7)
        (priority' (set_scheduler (Some 0) 5
           \<lparr>result' = holds_T (1 :: int), continuation' = Some 7, scheduler' = None,
            priority' = 0\<rparr>))
        (start (new_Scheduler 4 1)) []))
   \<and> task_queue'
     (fst (snd (snd (ScheduledTask_co_await_final_suspend not_done records_resume
        (set_scheduler (Some 0) 5
           \<lparr>result' = holds_T (1 :: int), continuation' = Some 7, scheduler' = None,
            priority' = 0\<rparr>)
        (store_of (start (new_Scheduler 4 1))) []))) 0)
   = [\<lparr>handle = Some 7, priority = 0\<rparr>]"
  by (simp add: ScheduledTask_co_await_final_suspend_def
      ScheduledTask_FinalAwaiter_await_suspend_def ScheduledTask_final_suspend_def
      schedule_def is_running_def default_priority_def set_scheduler_def start_def
      new_Scheduler_def priority_queue_emplace_def store_of_def)

text \<open>
  C4, amended. For every \<open>ScheduledTask\<close> with a continuation \<open>c\<close> and a running
  scheduler attached, whatever priority is attached with it: at the end of the task
  \<open>c\<close> is put into that scheduler's queue with priority 0, the default of
  \<open>schedule(continuation)\<close>; nothing is resumed in place (\<open>std::noop_coroutine()\<close> is
  returned) and the world is as it was.
\<close>

theorem C4_continuation_scheduled_with_default_priority:
  assumes "continuation' p = Some c" and "scheduler' p = Some a"
    and "is_running (schedulers a)"
  shows "ScheduledTask_co_await_final_suspend done_of resume_of p schedulers w =
     (None, None,
      schedulers(a := (schedulers a)\<lparr>task_queue' :=
        priority_queue_emplace (Some c) 0 (task_queue' (schedulers a))\<rparr>), w)"
  using assms
  by (simp add: ScheduledTask_co_await_final_suspend_def
      ScheduledTask_FinalAwaiter_await_suspend_def ScheduledTask_final_suspend_def
      schedule_def is_running_def default_priority_def)

theorem C4_witness:
  "continuation' (set_scheduler (Some 0) 5
      \<lparr>result' = holds_T (1 :: int), continuation' = Some 7, scheduler' = None,
       priority' = 0\<rparr>) = Some 7
   \<and> scheduler' (set_scheduler (Some 0) 5
      \<lparr>result' = holds_T (1 :: int), continuation' = Some 7, scheduler' = None,
       priority' = 0\<rparr>) = Some 0
   \<and> is_running (store_of (start (new_Scheduler 4 1)) 0)
   \<and> ScheduledTask_co_await_final_suspend not_done records_resume
        (set_scheduler (Some 0) 5
           \<lparr>result' = holds_T (1 :: int), continuation' = Some 7, scheduler' = None,
            priority' = 0\<rparr>)
        (store_of (start (new_Scheduler 4 1))) []
     = (None, None,
        (store_of (start (new_Scheduler 4 1)))
          (0 := (start (new_Scheduler 4 1))\<lparr>task_queue' := [\<lparr>handle = Some 7, priority = 0\<rparr>]\<rparr>),
        [])"
proof -
  let ?p = "set_scheduler (Some 0) 5
      \<lparr>result' = holds_T (1 :: int), continuation' = Some 7, scheduler' = None,
       priority' = 0\<rparr>"
  have c: "continuation' ?p = Some 7" by (simp add: set_scheduler_def)
  have s: "scheduler' ?p = Some 0" by (simp add: set_scheduler_def)
  have r: "is_running (store_of (start (new_Scheduler 4 1)) 0)"
    by (simp add: is_running_def start_def new_Scheduler_def store_of_def)
  have q: "priority_queue_emplace (Some 7) 0
      (task_queue' (store_of (start (new_Scheduler 4 1)) 0))
    = [\<lparr>handle = Some 7, priority = 0\<rparr>]"
    by (simp add: priority_queue_emplace_def start_def new_Scheduler_def store_of_def)
  have e: "store_of (start (new_Scheduler 4 1)) 0 = start (new_Scheduler 4 1)"
    by (simp add: store_of_def)
  from C4_continuation_scheduled_with_default_priority
    [of ?p 7 0 "store_of (start (new_Scheduler 4 1))" not_done records_resume "[]"] c s r q e
  have "ScheduledTask_co_await_final_suspend not_done records_resume ?p
        (store_of (start (new_Scheduler 4 1))) []
     = (None, None,
        (store_of (start (new_Scheduler 4 1)))
          (0 := (start (new_Scheduler 4 1))\<lparr>task_queue' := [\<lparr>handle = Some 7, priority = 0\<rparr>]\<rparr>),
        [])" by simp
  with c s r show ?thesis by simp
qed

section \<open>Scheduler: schedule on a scheduler that is not running\<close>

text \<open>
  With a coroutine that does not call the scheduler: for every handle \<open>c\<close> whose coroutine
  is not done, \<open>schedule(c, p)\<close> on a scheduler that is not running resumes \<open>c\<close> before it
  returns, and the scheduler, its queue included, is unchanged. A scheduler after
  \<open>stop()\<close> is such a scheduler. With the mutex in the model the same holds of such a
  coroutine, and the mutex is free again when \<open>schedule\<close> returns.
\<close>

lemma schedule_when_not_running_resumes_inline:
  "(\<not> is_running s \<and> \<not> done_of c w \<longrightarrow>
      schedule done_of resume_of (Some c) p s w =
        (fst (resume_of c w), s, snd (resume_of c w)))
   \<and> (\<not> done_of c w \<longrightarrow>
      schedule done_of resume_of (Some c) p (stop s) w =
        (fst (resume_of c w), stop s, snd (resume_of c w)))"
  by (simp add: schedule_def is_running_def stop_def split: prod.splits)

lemma locking_schedule_agrees:
  "locking_schedule done_of (leaves_scheduler_alone resume_of) h p
     \<lparr>members = s, mutex' = False\<rparr> w
   = (case schedule done_of resume_of h p s w of
        (x, s', w') \<Rightarrow> Some (x, \<lparr>members = s', mutex' = False\<rparr>, w'))"
  by (simp add: locking_schedule_def lock_guard_def unlock_def leaves_scheduler_alone_def
      schedule_def split: option.splits prod.splits)

lemma lock_of_held_mutex_never_returns:
  "mutex' g \<Longrightarrow>
   locking_is_running g = None \<and> locking_schedule done_of resume_in h p g w = None"
  by (simp add: locking_is_running_def locking_schedule_def lock_guard_def)

text \<open>
  C5. The claim: for every handle whose coroutine is not done, \<open>schedule(handle)\<close> on a
  scheduler that is not running resumes the continuation before \<open>schedule\<close> returns. The
  code on a stopped scheduler and the coroutine 3 that, when resumed, asks the
  scheduler \<open>is_running()\<close>: \<open>schedule\<close> resumes it with \<open>mutex_\<close> held, \<open>is_running()\<close>
  locks \<open>mutex_\<close> again, and \<open>schedule\<close> does not return. Resumed with the mutex free, as
  \<open>worker_thread\<close> resumes, the same coroutine returns; and \<open>schedule\<close> returns for a
  coroutine that leaves the scheduler alone.
\<close>

theorem C5_schedule_holds_the_mutex_while_it_resumes:
  "locking_schedule not_done asks_is_running (Some 3) default_priority
     \<lparr>members = stop (start (new_Scheduler 4 1)), mutex' = False\<rparr> [] = None
   \<and> asks_is_running 3 \<lparr>members = stop (start (new_Scheduler 4 1)), mutex' = False\<rparr> []
     = Some (None, \<lparr>members = stop (start (new_Scheduler 4 1)), mutex' = False\<rparr>, [3])
   \<and> locking_schedule not_done (leaves_scheduler_alone records_resume) (Some 3) default_priority
     \<lparr>members = stop (start (new_Scheduler 4 1)), mutex' = False\<rparr> []
     = Some (None, \<lparr>members = stop (start (new_Scheduler 4 1)), mutex' = False\<rparr>, [3])"
  by (simp add: locking_schedule_def lock_guard_def unlock_def asks_is_running_def
      locking_is_running_def not_done_def stop_def start_def new_Scheduler_def
      leaves_scheduler_alone_def records_resume_def)

section \<open>Scheduler: the worker and the priority order\<close>

lemma largest_is_highest: "\<forall>u \<in> set (m # xs). \<not> Task_less (largest m xs) u"
proof (induction xs arbitrary: m)
  case Nil
  show ?case by (simp add: Task_less_def)
next
  case (Cons x xs)
  show ?case
  proof (cases "Task_less m x")
    case True
    with Cons.IH [of x] show ?thesis by (auto simp: Task_less_def)
  next
    case False
    with Cons.IH [of m] show ?thesis by (auto simp: Task_less_def)
  qed
qed

lemma priority_queue_top_highest:
  assumes "q \<noteq> []"
  shows "\<exists>t. priority_queue_top q = Some t \<and> t \<in> set q
    \<and> (\<forall>u \<in> set q. priority u \<le> priority t) \<and> priority_queue_pop q = remove1 t q"
proof -
  from assms obtain x xs where q: "q = x # xs" by (cases q) auto
  let ?t = "largest x xs"
  have top: "priority_queue_top q = Some ?t" by (simp add: q priority_queue_top_def)
  have mem: "?t \<in> set q" using largest_in_set [of x xs] by (simp add: q)
  have high: "\<forall>u \<in> set q. priority u \<le> priority ?t"
    using largest_is_highest [of x xs] by (auto simp: q Task_less_def not_less)
  have pop: "priority_queue_pop q = remove1 ?t q" by (simp add: priority_queue_pop_def top)
  from top mem high pop show ?thesis by blast
qed

lemma execute_task_catches: "fst (execute_task done_of resume_of task w) = None"
  by (simp add: execute_task_def catch_handlers_def split: option.splits prod.splits)

lemma execute_task_result:
  "execute_task done_of resume_of task w = (None, snd (execute_task done_of resume_of task w))"
  using execute_task_catches [of done_of resume_of task w]
  by (cases "execute_task done_of resume_of task w") simp

lemma worker_iteration_pops:
  assumes "task_queue' s \<noteq> []" and "\<not> stop_requested' s"
    and "priority_queue_top (task_queue' s) = Some t"
  shows "worker_iteration done_of resume_of s w =
    Continues (None, s\<lparr>task_queue' := priority_queue_pop (task_queue' s)\<rparr>,
               snd (execute_task done_of resume_of t w))"
proof -
  define w' where "w' = snd (execute_task done_of resume_of t w)"
  have e: "execute_task done_of resume_of t w = (None, w')"
    unfolding w'_def by (rule execute_task_result)
  with assms show ?thesis
    by (simp add: worker_iteration_def wait_predicate_def)
qed

lemma worker_thread_three:
  fixes hw :: nat
  defines "s0 \<equiv> start (new_Scheduler hw 1)"
  shows "worker_thread done_of resume_of
     (fst (schedule_each done_of resume_of [(a, 1), (b, 10), (c, 5)] s0 w)) w
     = (Waits, s0,
       snd (execute_task done_of resume_of \<lparr>handle = Some a, priority = 1\<rparr>
         (snd (execute_task done_of resume_of \<lparr>handle = Some c, priority = 5\<rparr>
            (snd (execute_task done_of resume_of \<lparr>handle = Some b, priority = 10\<rparr> w))))))"
proof -
  let ?A = "\<lparr>handle = Some a, priority = 1\<rparr>"
  let ?B = "\<lparr>handle = Some b, priority = 10\<rparr>"
  let ?C = "\<lparr>handle = Some c, priority = 5\<rparr>"
  have r: "running' s0" "\<not> stop_requested' s0" "task_queue' s0 = []"
    by (simp_all add: s0_def start_def new_Scheduler_def)
  have q3: "fst (schedule_each done_of resume_of [(a, 1), (b, 10), (c, 5)] s0 w)
    = s0\<lparr>task_queue' := [?A, ?B, ?C]\<rparr>"
    using r by (simp add: schedule_def priority_queue_emplace_def)
  have t3: "priority_queue_top [?A, ?B, ?C] = Some ?B"
    by (simp add: priority_queue_top_def Task_less_def)
  have p3: "priority_queue_pop [?A, ?B, ?C] = [?A, ?C]"
    by (simp add: priority_queue_pop_def t3)
  have t2: "priority_queue_top [?A, ?C] = Some ?C"
    by (simp add: priority_queue_top_def Task_less_def)
  have p2: "priority_queue_pop [?A, ?C] = [?A]"
    by (simp add: priority_queue_pop_def t2)
  have t1: "priority_queue_top [?A] = Some ?A"
    by (simp add: priority_queue_top_def Task_less_def)
  have p1: "priority_queue_pop [?A] = []"
    by (simp add: priority_queue_pop_def t1)
  have e: "s0\<lparr>task_queue' := []\<rparr> = s0" using r by simp
  have w0: "worker_iteration done_of resume_of s0 w' = Waits" for w'
    using r by (simp add: worker_iteration_def wait_predicate_def)
  show ?thesis
    unfolding q3
    apply (subst worker_thread.simps)
    apply (subst worker_iteration_pops [where t = ?B])
    apply (simp_all add: r t3 p3)
    apply (subst worker_thread.simps)
    apply (subst worker_iteration_pops [where t = ?C])
    apply (simp_all add: r t2 p2)
    apply (subst worker_thread.simps)
    apply (subst worker_iteration_pops [where t = ?A])
    apply (simp_all add: r t1 p1 e)
    apply (subst worker_thread.simps)
    apply (simp add: w0)
    done
qed

text \<open>
  C6. A running scheduler with one worker whose queue holds three continuations put in
  with priorities 1, 10 and 5 (handles \<open>a\<close>, \<open>b\<close>, \<open>c\<close>): the worker takes and executes
  them in the order \<open>b\<close>, \<open>c\<close>, \<open>a\<close>, that is 10, 5, 1, whatever the coroutines do when
  resumed, and then waits on the empty queue; with coroutines that record their
  resumption the record is \<open>[b, c, a]\<close>. And for every non-empty queue, \<open>top\<close> is an entry
  of the queue whose priority no entry exceeds, and \<open>pop\<close> removes that entry.
\<close>

theorem C6_worker_resumes_in_priority_order:
  "worker_thread done_of resume_of
     (fst (schedule_each done_of resume_of [(a, 1), (b, 10), (c, 5)]
        (start (new_Scheduler hw 1)) w)) w
     = (Waits, start (new_Scheduler hw 1),
       snd (execute_task done_of resume_of \<lparr>handle = Some a, priority = 1\<rparr>
         (snd (execute_task done_of resume_of \<lparr>handle = Some c, priority = 5\<rparr>
            (snd (execute_task done_of resume_of \<lparr>handle = Some b, priority = 10\<rparr> w))))))
   \<and> worker_thread not_done records_resume
     (fst (schedule_each not_done records_resume [(a, 1), (b, 10), (c, 5)]
        (start (new_Scheduler hw 1)) [])) []
     = (Waits, start (new_Scheduler hw 1), [b, c, a])
   \<and> (q \<noteq> [] \<longrightarrow>
        (\<exists>t. priority_queue_top q = Some t \<and> t \<in> set q
           \<and> (\<forall>u \<in> set q. priority u \<le> priority t)
           \<and> priority_queue_pop q = remove1 t q))"
proof (intro conjI impI)
  show "worker_thread done_of resume_of
     (fst (schedule_each done_of resume_of [(a, 1), (b, 10), (c, 5)]
        (start (new_Scheduler hw 1)) w)) w
     = (Waits, start (new_Scheduler hw 1),
       snd (execute_task done_of resume_of \<lparr>handle = Some a, priority = 1\<rparr>
         (snd (execute_task done_of resume_of \<lparr>handle = Some c, priority = 5\<rparr>
            (snd (execute_task done_of resume_of \<lparr>handle = Some b, priority = 10\<rparr> w))))))"
    by (rule worker_thread_three)
  show "worker_thread not_done records_resume
     (fst (schedule_each not_done records_resume [(a, 1), (b, 10), (c, 5)]
        (start (new_Scheduler hw 1)) [])) []
     = (Waits, start (new_Scheduler hw 1), [b, c, a])"
    by (subst worker_thread_three)
      (simp add: execute_task_def catch_handlers_def try_resume_def not_done_def
        records_resume_def)
next
  assume "q \<noteq> []"
  then show "\<exists>t. priority_queue_top q = Some t \<and> t \<in> set q
           \<and> (\<forall>u \<in> set q. priority u \<le> priority t)
           \<and> priority_queue_pop q = remove1 t q"
    by (rule priority_queue_top_highest)
qed

theorem C6_witness:
  "worker_thread not_done records_resume
     (fst (schedule_each not_done records_resume [(1, 1), (2, 10), (3, 5)]
        (start (new_Scheduler 8 1)) [])) []
     = (Waits, start (new_Scheduler 8 1), [2, 3, 1])
   \<and> [\<lparr>handle = Some 1, priority = 1\<rparr>, \<lparr>handle = Some 2, priority = 10\<rparr>,
       \<lparr>handle = Some 3, priority = 5\<rparr>] \<noteq> []
   \<and> priority_queue_top
       [\<lparr>handle = Some 1, priority = 1\<rparr>, \<lparr>handle = Some 2, priority = 10\<rparr>,
        \<lparr>handle = Some 3, priority = 5\<rparr>] = Some \<lparr>handle = Some 2, priority = 10\<rparr>
   \<and> priority_queue_pop
       [\<lparr>handle = Some 1, priority = 1\<rparr>, \<lparr>handle = Some 2, priority = 10\<rparr>,
        \<lparr>handle = Some 3, priority = 5\<rparr>]
     = [\<lparr>handle = Some 1, priority = 1\<rparr>, \<lparr>handle = Some 3, priority = 5\<rparr>]"
proof -
  let ?q = "[\<lparr>handle = Some 1, priority = 1\<rparr>, \<lparr>handle = Some 2, priority = 10\<rparr>,
       \<lparr>handle = Some (3 :: nat), priority = 5\<rparr>]"
  note t = C6_worker_resumes_in_priority_order
    [of not_done records_resume 1 2 3 8 "[]" ?q]
  have ne: "?q \<noteq> []" by simp
  from t have run: "worker_thread not_done records_resume
     (fst (schedule_each not_done records_resume [(1, 1), (2, 10), (3, 5)]
        (start (new_Scheduler 8 1)) [])) []
     = (Waits, start (new_Scheduler 8 1), [2, 3, 1])" by blast
  from t ne obtain u where u: "priority_queue_top ?q = Some u"
    "priority_queue_pop ?q = remove1 u ?q" by blast
  have top: "priority_queue_top ?q = Some \<lparr>handle = Some 2, priority = 10\<rparr>"
    by (simp add: priority_queue_top_def Task_less_def)
  with u have "priority_queue_pop ?q
     = [\<lparr>handle = Some 1, priority = 1\<rparr>, \<lparr>handle = Some 3, priority = 5\<rparr>]"
    by simp
  with run ne top show ?thesis by blast
qed

lemma execute_task_no_exception:
  "execute_task done_of resume_of task w = (x, w') \<Longrightarrow> x = None"
  using execute_task_catches [of done_of resume_of task w] by simp

lemma worker_iteration_no_exception:
  "worker_iteration done_of resume_of s w \<noteq> Continues (Some e, s', w')"
  by (auto simp: worker_iteration_def split: if_splits option.splits prod.splits
      dest: execute_task_no_exception)

lemma worker_thread_no_exception:
  "fst (worker_thread done_of resume_of s w) \<noteq> Continues x"
proof (induction done_of resume_of s w rule: worker_thread.induct)
  case (1 done_of resume_of s w)
  show ?case
  proof (cases "worker_iteration done_of resume_of s w")
    case Waits
    then show ?thesis by (simp add: worker_thread.simps)
  next
    case Breaks
    then show ?thesis by (simp add: worker_thread.simps)
  next
    case (Continues r)
    obtain y s' w' where r: "r = (y, s', w')" by (cases r)
    with Continues worker_iteration_no_exception [of done_of resume_of s w _ s' w']
    have y: "y = None" by (cases y) auto
    from Continues r y "1.IH" [of "(None, s', w')" None "(s', w')" s' w']
    show ?thesis by (simp add: worker_thread.simps)
  qed
qed

lemma worker_continues_after_throw:
  assumes "task_queue' s \<noteq> []" and "\<not> stop_requested' s"
    and "priority_queue_top (task_queue' s) = Some \<lparr>handle = Some c, priority = p\<rparr>"
    and "\<not> done_of c w" and "resume_of c w = (Some e, w')"
  shows "worker_iteration done_of resume_of s w =
      Continues (None, s\<lparr>task_queue' := priority_queue_pop (task_queue' s)\<rparr>, w')"
    and "worker_thread done_of resume_of s w =
      worker_thread done_of resume_of
        (s\<lparr>task_queue' := priority_queue_pop (task_queue' s)\<rparr>) w'"
proof -
  have x: "execute_task done_of resume_of \<lparr>handle = Some c, priority = p\<rparr> w = (None, w')"
    using assms(4,5) by (simp add: execute_task_def try_resume_def catch_handlers_def)
  show it: "worker_iteration done_of resume_of s w =
      Continues (None, s\<lparr>task_queue' := priority_queue_pop (task_queue' s)\<rparr>, w')"
    using worker_iteration_pops [OF assms(1,2,3), of done_of resume_of w] x by simp
  show "worker_thread done_of resume_of s w =
      worker_thread done_of resume_of
        (s\<lparr>task_queue' := priority_queue_pop (task_queue' s)\<rparr>) w'"
    by (subst worker_thread.simps) (simp add: it)
qed

text \<open>
  C9. Whatever a resumed coroutine throws, derived from \<open>std::exception\<close> or not, the
  worker's handlers catch it: executing the task ends with no exception and with the
  world the coroutine left, no turn of the loop ends with an exception, and neither does
  the loop, which ends only by waiting on the queue or by the stop request. And the
  worker goes on: the turn in which the resumed coroutine throws ends like any other,
  with the task taken from the queue, and the loop continues from there with the rest
  of the queue.
\<close>

theorem C9_worker_catches_what_resume_throws:
  "(resume_of c w = (Some e, w') \<and> \<not> done_of c w \<longrightarrow>
      execute_task done_of resume_of \<lparr>handle = Some c, priority = p\<rparr> w = (None, w'))
   \<and> fst (execute_task done_of resume_of task w) = None
   \<and> worker_iteration done_of resume_of s w \<noteq> Continues (Some e, s', w'')
   \<and> fst (worker_thread done_of resume_of s w) \<noteq> Continues x
   \<and> (task_queue' s \<noteq> [] \<and> \<not> stop_requested' s
        \<and> priority_queue_top (task_queue' s) = Some \<lparr>handle = Some c, priority = p\<rparr>
        \<and> \<not> done_of c w \<and> resume_of c w = (Some e, w') \<longrightarrow>
      worker_iteration done_of resume_of s w =
        Continues (None, s\<lparr>task_queue' := priority_queue_pop (task_queue' s)\<rparr>, w')
      \<and> worker_thread done_of resume_of s w =
        worker_thread done_of resume_of
          (s\<lparr>task_queue' := priority_queue_pop (task_queue' s)\<rparr>) w')"
proof (intro conjI impI)
  assume "resume_of c w = (Some e, w') \<and> \<not> done_of c w"
  then show "execute_task done_of resume_of \<lparr>handle = Some c, priority = p\<rparr> w = (None, w')"
    by (simp add: execute_task_def try_resume_def catch_handlers_def)
next
  show "fst (execute_task done_of resume_of task w) = None"
    by (rule execute_task_catches)
  show "worker_iteration done_of resume_of s w \<noteq> Continues (Some e, s', w'')"
    by (rule worker_iteration_no_exception)
  show "fst (worker_thread done_of resume_of s w) \<noteq> Continues x"
    by (rule worker_thread_no_exception)
next
  assume a: "task_queue' s \<noteq> [] \<and> \<not> stop_requested' s
        \<and> priority_queue_top (task_queue' s) = Some \<lparr>handle = Some c, priority = p\<rparr>
        \<and> \<not> done_of c w \<and> resume_of c w = (Some e, w')"
  then show "worker_iteration done_of resume_of s w =
        Continues (None, s\<lparr>task_queue' := priority_queue_pop (task_queue' s)\<rparr>, w')"
    by (intro worker_continues_after_throw(1) [where c = c and p = p and e = e]) simp_all
  from a show "worker_thread done_of resume_of s w =
        worker_thread done_of resume_of
          (s\<lparr>task_queue' := priority_queue_pop (task_queue' s)\<rparr>) w'"
    by (intro worker_continues_after_throw(2) [where c = c and p = p and e = e]) simp_all
qed

theorem C9_witness:
  "throws_for [1 \<mapsto> thrown_value 3, 2 \<mapsto> std_exception ''bad''] 1 [] = (Some (thrown_value 3), [1])
   \<and> \<not> not_done 1 []
   \<and> execute_task not_done (throws_for [1 \<mapsto> thrown_value 3, 2 \<mapsto> std_exception ''bad''])
        \<lparr>handle = Some 1, priority = 10\<rparr> [] = (None, [1])
   \<and> throws_for [1 \<mapsto> thrown_value 3, 2 \<mapsto> std_exception ''bad''] 2 [1]
      = (Some (std_exception ''bad''), [1, 2])
   \<and> \<not> not_done 2 [1]
   \<and> execute_task not_done (throws_for [1 \<mapsto> thrown_value 3, 2 \<mapsto> std_exception ''bad''])
        \<lparr>handle = Some 2, priority = 5\<rparr> [1] = (None, [1, 2])
   \<and> worker_thread not_done (throws_for [1 \<mapsto> thrown_value 3, 2 \<mapsto> std_exception ''bad''])
        (fst (schedule_each not_done records_resume [(3, 1), (1, 10), (2, 5)]
           (start (new_Scheduler 8 1)) [])) []
      = (Waits, start (new_Scheduler 8 1), [1, 2, 3])
   \<and> task_queue' (fst (schedule_each not_done records_resume [(3, 1), (1, 10), (2, 5)]
           (start (new_Scheduler 8 1)) [])) \<noteq> []
   \<and> \<not> stop_requested' (fst (schedule_each not_done records_resume [(3, 1), (1, 10), (2, 5)]
           (start (new_Scheduler 8 1)) []))
   \<and> priority_queue_top
        (task_queue' (fst (schedule_each not_done records_resume [(3, 1), (1, 10), (2, 5)]
           (start (new_Scheduler 8 1)) [])))
      = Some \<lparr>handle = Some 1, priority = 10\<rparr>
   \<and> worker_iteration not_done
        (throws_for [1 \<mapsto> thrown_value 3, 2 \<mapsto> std_exception ''bad''])
        (fst (schedule_each not_done records_resume [(3, 1), (1, 10), (2, 5)]
           (start (new_Scheduler 8 1)) [])) []
      = Continues (None,
          (start (new_Scheduler 8 1))\<lparr>task_queue' :=
             [\<lparr>handle = Some 3, priority = 1\<rparr>, \<lparr>handle = Some 2, priority = 5\<rparr>]\<rparr>, [1])
   \<and> worker_thread not_done (throws_for [1 \<mapsto> thrown_value 3, 2 \<mapsto> std_exception ''bad''])
        ((start (new_Scheduler 8 1))\<lparr>task_queue' :=
             [\<lparr>handle = Some 3, priority = 1\<rparr>, \<lparr>handle = Some 2, priority = 5\<rparr>]\<rparr>) [1]
      = (Waits, start (new_Scheduler 8 1), [1, 2, 3])"
proof -
  let ?m = "[1 \<mapsto> thrown_value 3, 2 \<mapsto> std_exception ''bad'']"
  let ?s = "fst (schedule_each not_done records_resume [(3, 1), (1, 10), (2, 5)]
           (start (new_Scheduler 8 1)) [])"
  let ?s' = "(start (new_Scheduler 8 1))\<lparr>task_queue' :=
             [\<lparr>handle = Some 3, priority = 1\<rparr>, \<lparr>handle = Some 2, priority = 5\<rparr>]\<rparr>"
  have h1: "throws_for ?m 1 [] = (Some (thrown_value 3), [1]) \<and> \<not> not_done 1 []"
    by (simp add: throws_for_def not_done_def)
  have h2: "throws_for ?m 2 [1] = (Some (std_exception ''bad''), [1, 2]) \<and> \<not> not_done 2 [1]"
    by (simp add: throws_for_def not_done_def)
  have q: "task_queue' ?s = [\<lparr>handle = Some 3, priority = 1\<rparr>,
      \<lparr>handle = Some 1, priority = 10\<rparr>, \<lparr>handle = Some 2, priority = 5\<rparr>]"
    by (simp add: schedule_def start_def new_Scheduler_def priority_queue_emplace_def)
  have h3: "task_queue' ?s \<noteq> []" using q by simp
  have h4: "\<not> stop_requested' ?s"
    by (simp add: schedule_def start_def new_Scheduler_def)
  have h5: "priority_queue_top (task_queue' ?s) = Some \<lparr>handle = Some 1, priority = 10\<rparr>"
    unfolding q by (simp add: priority_queue_top_def Task_less_def)
  have p: "?s\<lparr>task_queue' := priority_queue_pop (task_queue' ?s)\<rparr> = ?s'"
    by (simp add: schedule_def start_def new_Scheduler_def priority_queue_emplace_def
        priority_queue_pop_def priority_queue_top_def Task_less_def)
  note t1 = C9_worker_catches_what_resume_throws
    [of "throws_for ?m" 1 "[]" "thrown_value 3" "[1]" not_done 10 _ ?s]
  note t2 = C9_worker_catches_what_resume_throws
    [of "throws_for ?m" 2 "[1]" "std_exception ''bad''" "[1, 2]" not_done 5]
  from t1 h1 have r1: "execute_task not_done (throws_for ?m)
        \<lparr>handle = Some 1, priority = 10\<rparr> [] = (None, [1])" by blast
  from t2 h2 have r2: "execute_task not_done (throws_for ?m)
        \<lparr>handle = Some 2, priority = 5\<rparr> [1] = (None, [1, 2])" by blast
  have r3: "worker_thread not_done (throws_for ?m) ?s [] = (Waits, start (new_Scheduler 8 1), [1, 2, 3])"
    by (simp add: worker_thread.simps worker_iteration_def wait_predicate_def
      schedule_def start_def new_Scheduler_def priority_queue_emplace_def
      priority_queue_top_def priority_queue_pop_def Task_less_def execute_task_def
      catch_handlers_def try_resume_def not_done_def throws_for_def)
  from t1 h1 h3 h4 h5
  have a: "worker_iteration not_done (throws_for ?m) ?s [] =
        Continues (None, ?s\<lparr>task_queue' := priority_queue_pop (task_queue' ?s)\<rparr>, [1])"
    and b: "worker_thread not_done (throws_for ?m) ?s [] =
        worker_thread not_done (throws_for ?m)
          (?s\<lparr>task_queue' := priority_queue_pop (task_queue' ?s)\<rparr>) [1]"
    by blast+
  have r4: "worker_iteration not_done (throws_for ?m) ?s [] = Continues (None, ?s', [1])"
    using a unfolding p .
  have r5: "worker_thread not_done (throws_for ?m) ?s' [1]
      = (Waits, start (new_Scheduler 8 1), [1, 2, 3])"
    by (rule trans [OF b [unfolded p, symmetric] r3])
  from h1 h2 r1 r2 r3 h3 h4 h5 r4 r5 show ?thesis by blast
qed

section \<open>Task: laziness, results and errors\<close>

text \<open>
  C7. Creating a \<open>Task\<close> runs no part of its body: the log of side effects is unchanged,
  the result slot is empty and the whole body is still to run at the initial suspend
  point. The first \<open>resume()\<close> runs the body from its start, to its first stop; so does
  \<open>co_await\<close>, which also leaves the awaiting coroutine recorded as the continuation.
\<close>

theorem C7_creating_a_Task_runs_nothing:
  "create_Task b w =
     (\<lparr>promise = \<lparr>result' = monostate, continuation' = None\<rparr>,
       suspended = at_initial_suspend b\<rparr>, w, None)
   \<and> Task_resume (fst (create_Task b w)) w1
     = Some (run_coroutine (fst (create_Task b w)) b w1)
   \<and> fst (snd (run_coroutine c b w1)) = snd (run_body b w1)
   \<and> (\<exists>r c'. co_await_Task a (fst (create_Task b w)) w1 = Some (r, c', snd (run_body b w1))
        \<and> continuation' (promise c') = Some a)"
proof (intro conjI)
  show "create_Task b w =
     (\<lparr>promise = \<lparr>result' = monostate, continuation' = None\<rparr>,
       suspended = at_initial_suspend b\<rparr>, w, None)"
    by (simp add: create_Task_def initial_suspend_def)
  show "Task_resume (fst (create_Task b w)) w1
     = Some (run_coroutine (fst (create_Task b w)) b w1)"
    by (simp add: create_Task_def initial_suspend_def Task_resume_def handle_done_def
        handle_resume_def)
  show "fst (snd (run_coroutine c b w1)) = snd (run_body b w1)"
    by (simp add: run_coroutine_def co_await_final_suspend_def
        split: prod.splits body_stop.splits)
  show "\<exists>r c'. co_await_Task a (fst (create_Task b w)) w1 = Some (r, c', snd (run_body b w1))
        \<and> continuation' (promise c') = Some a"
    by (auto simp add: create_Task_def initial_suspend_def co_await_Task_def
        TaskAwaiter_await_ready_def TaskAwaiter_await_suspend_def handle_done_def
        handle_resume_def run_coroutine_def co_await_final_suspend_def
        return_value_def unhandled_exception_def
        split: prod.splits body_stop.splits)
qed

lemma co_await_done_Task:
  "handle_done c \<Longrightarrow> co_await_Task a c w = Some (Completes (get_result (promise c)), c, w)"
  by (simp add: co_await_Task_def TaskAwaiter_await_ready_def TaskAwaiter_await_resume_def)

lemma handle_resume_to_the_end:
  assumes "suspended c = at_initial_suspend b \<or> suspended c = at_suspend b"
  shows "(run_body b w = (Threw e, w') \<longrightarrow>
      handle_resume c w =
        Some (c\<lparr>promise := (promise c)\<lparr>result' := holds_exception_ptr e\<rparr>,
                suspended := at_final_suspend\<rparr>, w', continuation' (promise c)))
    \<and> (run_body b w = (Returned v, w') \<longrightarrow>
      handle_resume c w =
        Some (c\<lparr>promise := (promise c)\<lparr>result' := holds_T v\<rparr>,
                suspended := at_final_suspend\<rparr>, w', continuation' (promise c)))"
  using assms
  by (auto simp: handle_resume_def run_coroutine_def co_await_final_suspend_def
      return_value_def unhandled_exception_def final_suspend_def
      FinalAwaiter_await_suspend_def split: option.splits)

lemma co_await_Task_not_done:
  assumes "suspended c = at_initial_suspend b \<or> suspended c = at_suspend b"
  shows "co_await_Task a c w =
    (case run_body b w of
       (Threw e, w') \<Rightarrow>
         Some (Completes (Inl e),
               c\<lparr>promise := (promise c)\<lparr>result' := holds_exception_ptr e,
                                         continuation' := Some a\<rparr>,
                 suspended := at_final_suspend\<rparr>, w')
     | (Returned v, w') \<Rightarrow>
         Some (Completes (Inr v),
               c\<lparr>promise := (promise c)\<lparr>result' := holds_T v, continuation' := Some a\<rparr>,
                 suspended := at_final_suspend\<rparr>, w')
     | (Suspended_at k, w') \<Rightarrow>
         Some (Stays_suspended,
               c\<lparr>promise := (promise c)\<lparr>continuation' := Some a\<rparr>,
                 suspended := at_suspend k\<rparr>, w'))"
proof -
  have nd: "\<not> handle_done c" using assms by (auto simp: handle_done_def)
  have r: "handle_resume (c\<lparr>promise := (promise c)\<lparr>continuation' := Some a\<rparr>\<rparr>) w
    = Some (run_coroutine (c\<lparr>promise := (promise c)\<lparr>continuation' := Some a\<rparr>\<rparr>) b w)"
    using assms by (auto simp: handle_resume_def)
  obtain st w' where rb: "run_body b w = (st, w')" by (cases "run_body b w")
  show ?thesis
    by (cases st)
      (simp_all add: co_await_Task_def TaskAwaiter_await_ready_def nd
        TaskAwaiter_await_suspend_def r rb run_coroutine_def co_await_final_suspend_def
        TaskAwaiter_await_resume_def get_result_def return_value_def unhandled_exception_def
        final_suspend_def FinalAwaiter_await_suspend_def)
qed

text \<open>
  C8. When the body of a \<open>Task\<close> ends by an exception \<open>e\<close>, the exception is stored in
  the result slot and does not leave \<open>resume()\<close>, and the \<open>co_await\<close> of the awaiting
  coroutine throws \<open>e\<close>; when it ends by \<open>co_return v\<close>, the \<open>co_await\<close> has the value
  \<open>v\<close>. This holds when the body ends within the \<open>co_await\<close>, and when it had suspended
  inside and ends on a later \<open>resume()\<close>: control then goes to the continuation, whose
  \<open>await_resume\<close> throws \<open>e\<close> or returns \<open>v\<close>. It holds with no awaiter as well:
  \<open>Task::resume()\<close> on a task that nobody awaits returns normally with \<open>e\<close> or \<open>v\<close>
  stored; and a \<open>co_await\<close> on a task that is already done does not suspend and throws
  the stored \<open>e\<close> or has the stored value \<open>v\<close>. A \<open>co_await\<close> on any task that is not
  done does the same as on a new one, and where the body suspends inside it leaves the
  awaiting coroutine suspended and recorded as the continuation.
\<close>

theorem C8_Task_result_is_stored_and_given_to_the_awaiter:
  "(run_body b w = (Threw e, w') \<longrightarrow>
      co_await_Task a (fst (create_Task b w0)) w =
        Some (Completes (Inl e),
              \<lparr>promise = \<lparr>result' = holds_exception_ptr e, continuation' = Some a\<rparr>,
               suspended = at_final_suspend\<rparr>, w'))
   \<and> (run_body b w = (Returned v, w') \<longrightarrow>
      co_await_Task a (fst (create_Task b w0)) w =
        Some (Completes (Inr v),
              \<lparr>promise = \<lparr>result' = holds_T v, continuation' = Some a\<rparr>,
               suspended = at_final_suspend\<rparr>, w'))
   \<and> (suspended c = at_suspend b \<and> continuation' (promise c) = Some a
        \<and> run_body b w = (Threw e, w') \<longrightarrow>
      handle_resume c w =
        Some (c\<lparr>promise := (promise c)\<lparr>result' := holds_exception_ptr e\<rparr>,
                suspended := at_final_suspend\<rparr>, w', Some a)
      \<and> TaskAwaiter_await_resume
          (c\<lparr>promise := (promise c)\<lparr>result' := holds_exception_ptr e\<rparr>,
             suspended := at_final_suspend\<rparr>) = Inl e)
   \<and> (suspended c = at_suspend b \<and> continuation' (promise c) = Some a
        \<and> run_body b w = (Returned v, w') \<longrightarrow>
      handle_resume c w =
        Some (c\<lparr>promise := (promise c)\<lparr>result' := holds_T v\<rparr>,
                suspended := at_final_suspend\<rparr>, w', Some a)
      \<and> TaskAwaiter_await_resume
          (c\<lparr>promise := (promise c)\<lparr>result' := holds_T v\<rparr>,
             suspended := at_final_suspend\<rparr>) = Inr v)
   \<and> ((suspended c = at_initial_suspend b \<or> suspended c = at_suspend b)
        \<and> run_body b w = (Threw e, w') \<longrightarrow>
      Task_resume c w =
        Some (c\<lparr>promise := (promise c)\<lparr>result' := holds_exception_ptr e\<rparr>,
                suspended := at_final_suspend\<rparr>, w', continuation' (promise c)))
   \<and> ((suspended c = at_initial_suspend b \<or> suspended c = at_suspend b)
        \<and> run_body b w = (Returned v, w') \<longrightarrow>
      Task_resume c w =
        Some (c\<lparr>promise := (promise c)\<lparr>result' := holds_T v\<rparr>,
                suspended := at_final_suspend\<rparr>, w', continuation' (promise c)))
   \<and> (handle_done c \<and> promise_type.result' (promise c) = holds_exception_ptr e \<longrightarrow>
      co_await_Task a c w = Some (Completes (Inl e), c, w))
   \<and> (handle_done c \<and> promise_type.result' (promise c) = holds_T v \<longrightarrow>
      co_await_Task a c w = Some (Completes (Inr v), c, w))
   \<and> ((suspended c = at_initial_suspend b \<or> suspended c = at_suspend b)
        \<and> run_body b w = (Threw e, w') \<longrightarrow>
      co_await_Task a c w =
        Some (Completes (Inl e),
              c\<lparr>promise := (promise c)\<lparr>result' := holds_exception_ptr e,
                                        continuation' := Some a\<rparr>,
                suspended := at_final_suspend\<rparr>, w'))
   \<and> ((suspended c = at_initial_suspend b \<or> suspended c = at_suspend b)
        \<and> run_body b w = (Returned v, w') \<longrightarrow>
      co_await_Task a c w =
        Some (Completes (Inr v),
              c\<lparr>promise := (promise c)\<lparr>result' := holds_T v, continuation' := Some a\<rparr>,
                suspended := at_final_suspend\<rparr>, w'))
   \<and> ((suspended c = at_initial_suspend b \<or> suspended c = at_suspend b)
        \<and> run_body b w = (Suspended_at k, w') \<longrightarrow>
      co_await_Task a c w =
        Some (Stays_suspended,
              c\<lparr>promise := (promise c)\<lparr>continuation' := Some a\<rparr>,
                suspended := at_suspend k\<rparr>, w'))"
proof -
  have fresh: "(run_body b w = (Threw e, w') \<longrightarrow>
      co_await_Task a (fst (create_Task b w0)) w =
        Some (Completes (Inl e),
              \<lparr>promise = \<lparr>result' = holds_exception_ptr e, continuation' = Some a\<rparr>,
               suspended = at_final_suspend\<rparr>, w'))
   \<and> (run_body b w = (Returned v, w') \<longrightarrow>
      co_await_Task a (fst (create_Task b w0)) w =
        Some (Completes (Inr v),
              \<lparr>promise = \<lparr>result' = holds_T v, continuation' = Some a\<rparr>,
               suspended = at_final_suspend\<rparr>, w'))"
    by (simp add: create_Task_def initial_suspend_def co_await_Task_def
      TaskAwaiter_await_ready_def TaskAwaiter_await_suspend_def TaskAwaiter_await_resume_def
      get_result_def handle_done_def handle_resume_def run_coroutine_def
      co_await_final_suspend_def return_value_def unhandled_exception_def final_suspend_def
      FinalAwaiter_await_suspend_def)
  have later: "(suspended c = at_suspend b \<and> continuation' (promise c) = Some a
        \<and> run_body b w = (Threw e, w') \<longrightarrow>
      handle_resume c w =
        Some (c\<lparr>promise := (promise c)\<lparr>result' := holds_exception_ptr e\<rparr>,
                suspended := at_final_suspend\<rparr>, w', Some a)
      \<and> TaskAwaiter_await_resume
          (c\<lparr>promise := (promise c)\<lparr>result' := holds_exception_ptr e\<rparr>,
             suspended := at_final_suspend\<rparr>) = Inl e)
   \<and> (suspended c = at_suspend b \<and> continuation' (promise c) = Some a
        \<and> run_body b w = (Returned v, w') \<longrightarrow>
      handle_resume c w =
        Some (c\<lparr>promise := (promise c)\<lparr>result' := holds_T v\<rparr>,
                suspended := at_final_suspend\<rparr>, w', Some a)
      \<and> TaskAwaiter_await_resume
          (c\<lparr>promise := (promise c)\<lparr>result' := holds_T v\<rparr>,
             suspended := at_final_suspend\<rparr>) = Inr v)"
    by (simp add: TaskAwaiter_await_resume_def get_result_def handle_resume_def
      run_coroutine_def co_await_final_suspend_def return_value_def unhandled_exception_def
      final_suspend_def FinalAwaiter_await_suspend_def)
  have alone: "((suspended c = at_initial_suspend b \<or> suspended c = at_suspend b)
        \<and> run_body b w = (Threw e, w') \<longrightarrow>
      Task_resume c w =
        Some (c\<lparr>promise := (promise c)\<lparr>result' := holds_exception_ptr e\<rparr>,
                suspended := at_final_suspend\<rparr>, w', continuation' (promise c)))
   \<and> ((suspended c = at_initial_suspend b \<or> suspended c = at_suspend b)
        \<and> run_body b w = (Returned v, w') \<longrightarrow>
      Task_resume c w =
        Some (c\<lparr>promise := (promise c)\<lparr>result' := holds_T v\<rparr>,
                suspended := at_final_suspend\<rparr>, w', continuation' (promise c)))"
    using handle_resume_to_the_end [of c b w e w' v]
    by (auto simp: Task_resume_def handle_done_def)
  have finished: "(handle_done c \<and> promise_type.result' (promise c) = holds_exception_ptr e \<longrightarrow>
      co_await_Task a c w = Some (Completes (Inl e), c, w))
   \<and> (handle_done c \<and> promise_type.result' (promise c) = holds_T v \<longrightarrow>
      co_await_Task a c w = Some (Completes (Inr v), c, w))"
    by (simp add: co_await_done_Task get_result_def)
  have awaited: "((suspended c = at_initial_suspend b \<or> suspended c = at_suspend b)
        \<and> run_body b w = (Threw e, w') \<longrightarrow>
      co_await_Task a c w =
        Some (Completes (Inl e),
              c\<lparr>promise := (promise c)\<lparr>result' := holds_exception_ptr e,
                                        continuation' := Some a\<rparr>,
                suspended := at_final_suspend\<rparr>, w'))
   \<and> ((suspended c = at_initial_suspend b \<or> suspended c = at_suspend b)
        \<and> run_body b w = (Returned v, w') \<longrightarrow>
      co_await_Task a c w =
        Some (Completes (Inr v),
              c\<lparr>promise := (promise c)\<lparr>result' := holds_T v, continuation' := Some a\<rparr>,
                suspended := at_final_suspend\<rparr>, w'))
   \<and> ((suspended c = at_initial_suspend b \<or> suspended c = at_suspend b)
        \<and> run_body b w = (Suspended_at k, w') \<longrightarrow>
      co_await_Task a c w =
        Some (Stays_suspended,
              c\<lparr>promise := (promise c)\<lparr>continuation' := Some a\<rparr>,
                suspended := at_suspend k\<rparr>, w'))"
  proof (intro conjI impI)
    assume h: "(suspended c = at_initial_suspend b \<or> suspended c = at_suspend b)
        \<and> run_body b w = (Threw e, w')"
    then have "suspended c = at_initial_suspend b \<or> suspended c = at_suspend b" by simp
    from co_await_Task_not_done [OF this, of a w] h
    show "co_await_Task a c w =
        Some (Completes (Inl e),
              c\<lparr>promise := (promise c)\<lparr>result' := holds_exception_ptr e,
                                        continuation' := Some a\<rparr>,
                suspended := at_final_suspend\<rparr>, w')"
      by simp
  next
    assume h: "(suspended c = at_initial_suspend b \<or> suspended c = at_suspend b)
        \<and> run_body b w = (Returned v, w')"
    then have "suspended c = at_initial_suspend b \<or> suspended c = at_suspend b" by simp
    from co_await_Task_not_done [OF this, of a w] h
    show "co_await_Task a c w =
        Some (Completes (Inr v),
              c\<lparr>promise := (promise c)\<lparr>result' := holds_T v, continuation' := Some a\<rparr>,
                suspended := at_final_suspend\<rparr>, w')"
      by simp
  next
    assume h: "(suspended c = at_initial_suspend b \<or> suspended c = at_suspend b)
        \<and> run_body b w = (Suspended_at k, w')"
    then have "suspended c = at_initial_suspend b \<or> suspended c = at_suspend b" by simp
    from co_await_Task_not_done [OF this, of a w] h
    show "co_await_Task a c w =
        Some (Stays_suspended,
              c\<lparr>promise := (promise c)\<lparr>continuation' := Some a\<rparr>,
                suspended := at_suspend k\<rparr>, w')"
      by simp
  qed
  from fresh later alone finished awaited show ?thesis by blast
qed

theorem C8_witness:
  "run_body (Effect 1 (Throw (std_exception ''boom''))) [] = (Threw (std_exception ''boom''), [1])
   \<and> co_await_Task 7 (fst (create_Task (Effect 1 (Throw (std_exception ''boom'')) :: int body) [])) []
     = Some (Completes (Inl (std_exception ''boom'')),
             \<lparr>promise = \<lparr>result' = holds_exception_ptr (std_exception ''boom''),
                          continuation' = Some 7\<rparr>,
              suspended = at_final_suspend\<rparr>, [1])
   \<and> run_body (Effect 1 (Co_return (42 :: int))) [] = (Returned 42, [1])
   \<and> co_await_Task 7 (fst (create_Task (Effect 1 (Co_return (42 :: int))) [])) []
     = Some (Completes (Inr 42),
             \<lparr>promise = \<lparr>result' = holds_T 42, continuation' = Some 7\<rparr>,
              suspended = at_final_suspend\<rparr>, [1])
   \<and> co_await_Task 7 (fst (create_Task (Suspend (Throw (thrown_value 3)) :: int body) [])) []
     = Some (Stays_suspended,
             \<lparr>promise = \<lparr>result' = monostate, continuation' = Some 7\<rparr>,
              suspended = at_suspend (Throw (thrown_value 3))\<rparr>, [])
   \<and> handle_resume
        \<lparr>promise = \<lparr>result' = monostate, continuation' = Some 7\<rparr>,
         suspended = at_suspend (Throw (thrown_value 3) :: int body)\<rparr> []
     = Some (\<lparr>promise = \<lparr>result' = holds_exception_ptr (thrown_value 3),
                          continuation' = Some 7\<rparr>,
              suspended = at_final_suspend\<rparr>, [], Some 7)
   \<and> TaskAwaiter_await_resume
        \<lparr>promise = \<lparr>result' = holds_exception_ptr (thrown_value 3), continuation' = Some 7\<rparr>,
         suspended = (at_final_suspend :: int suspension)\<rparr> = Inl (thrown_value 3)
   \<and> handle_resume
        \<lparr>promise = \<lparr>result' = monostate, continuation' = Some 7\<rparr>,
         suspended = at_suspend (Co_return (5 :: int))\<rparr> []
     = Some (\<lparr>promise = \<lparr>result' = holds_T 5, continuation' = Some 7\<rparr>,
              suspended = at_final_suspend\<rparr>, [], Some 7)
   \<and> Task_resume (fst (create_Task (Effect 1 (Throw (std_exception ''boom'')) :: int body) [])) []
     = Some (\<lparr>promise = \<lparr>result' = holds_exception_ptr (std_exception ''boom''),
                          continuation' = None\<rparr>,
              suspended = at_final_suspend\<rparr>, [1], None)
   \<and> handle_done
        \<lparr>promise = \<lparr>result' = holds_exception_ptr (std_exception ''boom''),
                     continuation' = None\<rparr>,
         suspended = (at_final_suspend :: int suspension)\<rparr>
   \<and> co_await_Task 7
        \<lparr>promise = \<lparr>result' = holds_exception_ptr (std_exception ''boom''),
                     continuation' = None\<rparr>,
         suspended = (at_final_suspend :: int suspension)\<rparr> [1]
     = Some (Completes (Inl (std_exception ''boom'')),
             \<lparr>promise = \<lparr>result' = holds_exception_ptr (std_exception ''boom''),
                          continuation' = None\<rparr>,
              suspended = at_final_suspend\<rparr>, [1])
   \<and> Task_resume (fst (create_Task (Effect 1 (Co_return (42 :: int))) [])) []
     = Some (\<lparr>promise = \<lparr>result' = holds_T 42, continuation' = None\<rparr>,
              suspended = at_final_suspend\<rparr>, [1], None)
   \<and> co_await_Task 7
        \<lparr>promise = \<lparr>result' = holds_T (42 :: int), continuation' = None\<rparr>,
         suspended = at_final_suspend\<rparr> [1]
     = Some (Completes (Inr 42),
             \<lparr>promise = \<lparr>result' = holds_T 42, continuation' = None\<rparr>,
              suspended = at_final_suspend\<rparr>, [1])
   \<and> co_await_Task 7
        \<lparr>promise = \<lparr>result' = monostate, continuation' = None\<rparr>,
         suspended = at_suspend (Throw (thrown_value 3) :: int body)\<rparr> []
     = Some (Completes (Inl (thrown_value 3)),
             \<lparr>promise = \<lparr>result' = holds_exception_ptr (thrown_value 3),
                          continuation' = Some 7\<rparr>,
              suspended = at_final_suspend\<rparr>, [])
   \<and> co_await_Task 7
        \<lparr>promise = \<lparr>result' = monostate, continuation' = None\<rparr>,
         suspended = at_suspend (Co_return (5 :: int))\<rparr> []
     = Some (Completes (Inr 5),
             \<lparr>promise = \<lparr>result' = holds_T 5, continuation' = Some 7\<rparr>,
              suspended = at_final_suspend\<rparr>, [])"
proof -
  let ?bt = "Effect 1 (Throw (std_exception ''boom'')) :: int body"
  let ?br = "Effect 1 (Co_return (42 :: int))"
  let ?bs = "Suspend (Throw (thrown_value 3)) :: int body"
  let ?ct = "\<lparr>promise = \<lparr>result' = monostate, continuation' = Some 7\<rparr>,
         suspended = at_suspend (Throw (thrown_value 3) :: int body)\<rparr>"
  let ?cr = "\<lparr>promise = \<lparr>result' = monostate, continuation' = Some 7\<rparr>,
         suspended = at_suspend (Co_return (5 :: int))\<rparr>"
  let ?ut = "\<lparr>promise = \<lparr>result' = monostate, continuation' = None\<rparr>,
         suspended = at_suspend (Throw (thrown_value 3) :: int body)\<rparr>"
  let ?ur = "\<lparr>promise = \<lparr>result' = monostate, continuation' = None\<rparr>,
         suspended = at_suspend (Co_return (5 :: int))\<rparr>"
  let ?ft = "fst (create_Task ?bt [])"
  let ?fr = "fst (create_Task ?br [])"
  let ?fs = "fst (create_Task ?bs [])"
  let ?dt = "\<lparr>promise = \<lparr>result' = holds_exception_ptr (std_exception ''boom''),
                     continuation' = None\<rparr>,
         suspended = (at_final_suspend :: int suspension)\<rparr>"
  let ?dr = "\<lparr>promise = \<lparr>result' = holds_T (42 :: int), continuation' = None\<rparr>,
         suspended = at_final_suspend\<rparr>"
  have h1: "run_body ?bt [] = (Threw (std_exception ''boom''), [1])" by simp
  have h2: "run_body ?br [] = (Returned 42, [1])" by simp
  have h3: "suspended ?ct = at_suspend (Throw (thrown_value 3)) \<and>
      continuation' (promise ?ct) = Some 7 \<and>
      run_body (Throw (thrown_value 3) :: int body) [] = (Threw (thrown_value 3), [])" by simp
  have h4: "suspended ?cr = at_suspend (Co_return 5) \<and>
      continuation' (promise ?cr) = Some 7 \<and>
      run_body (Co_return (5 :: int)) [] = (Returned 5, [])" by simp
  have h5: "(suspended ?ft = at_initial_suspend ?bt \<or> suspended ?ft = at_suspend ?bt)
      \<and> run_body ?bt [] = (Threw (std_exception ''boom''), [1])"
    by (simp add: create_Task_def initial_suspend_def)
  have h6: "(suspended ?fr = at_initial_suspend ?br \<or> suspended ?fr = at_suspend ?br)
      \<and> run_body ?br [] = (Returned 42, [1])"
    by (simp add: create_Task_def initial_suspend_def)
  have h7: "handle_done ?dt \<and>
      promise_type.result' (promise ?dt) = holds_exception_ptr (std_exception ''boom'')"
    by (simp add: handle_done_def)
  have h8: "handle_done ?dr \<and> promise_type.result' (promise ?dr) = holds_T 42"
    by (simp add: handle_done_def)
  have h9: "(suspended ?ut = at_initial_suspend (Throw (thrown_value 3))
        \<or> suspended ?ut = at_suspend (Throw (thrown_value 3)))
      \<and> run_body (Throw (thrown_value 3) :: int body) [] = (Threw (thrown_value 3), [])"
    by simp
  have h10: "(suspended ?ur = at_initial_suspend (Co_return 5)
        \<or> suspended ?ur = at_suspend (Co_return 5))
      \<and> run_body (Co_return (5 :: int)) [] = (Returned 5, [])"
    by simp
  have h11: "(suspended ?fs = at_initial_suspend ?bs \<or> suspended ?fs = at_suspend ?bs)
      \<and> run_body ?bs [] = (Suspended_at (Throw (thrown_value 3)), [])"
    by (simp add: create_Task_def initial_suspend_def)
  note t1 = C8_Task_result_is_stored_and_given_to_the_awaiter
    [of ?bt "[]" "std_exception ''boom''" "[1]" 7 "[]" 0 ?ct, THEN conjunct1, THEN mp, OF h1]
  note t2 = C8_Task_result_is_stored_and_given_to_the_awaiter
    [of ?br "[]" "thrown_value 0" "[1]" 7 "[]" 42 ?cr, THEN conjunct2, THEN conjunct1, THEN mp, OF h2]
  note t3 = C8_Task_result_is_stored_and_given_to_the_awaiter
    [of "Throw (thrown_value 3)" "[]" "thrown_value 3" "[]" 7 "[]" 0 ?ct, THEN conjunct2, THEN conjunct2, THEN conjunct1, THEN mp, OF h3]
  note t4 = C8_Task_result_is_stored_and_given_to_the_awaiter
    [of "Co_return 5" "[]" "thrown_value 0" "[]" 7 "[]" 5 ?cr, THEN conjunct2, THEN conjunct2, THEN conjunct2, THEN conjunct1, THEN mp, OF h4]
  note t5 = C8_Task_result_is_stored_and_given_to_the_awaiter
    [of ?bt "[]" "std_exception ''boom''" "[1]" 7 "[]" 0 ?ft, THEN conjunct2, THEN conjunct2, THEN conjunct2, THEN conjunct2, THEN conjunct1, THEN mp, OF h5]
  note t6 = C8_Task_result_is_stored_and_given_to_the_awaiter
    [of ?br "[]" "thrown_value 0" "[1]" 7 "[]" 42 ?fr, THEN conjunct2, THEN conjunct2, THEN conjunct2, THEN conjunct2, THEN conjunct2, THEN conjunct1, THEN mp, OF h6]
  note t7 = C8_Task_result_is_stored_and_given_to_the_awaiter
    [of ?bt "[1]" "std_exception ''boom''" "[1]" 7 "[]" 0 ?dt, THEN conjunct2, THEN conjunct2, THEN conjunct2, THEN conjunct2, THEN conjunct2, THEN conjunct2, THEN conjunct1, THEN mp, OF h7]
  note t8 = C8_Task_result_is_stored_and_given_to_the_awaiter
    [of ?br "[1]" "thrown_value 0" "[1]" 7 "[]" 42 ?dr, THEN conjunct2, THEN conjunct2, THEN conjunct2, THEN conjunct2, THEN conjunct2, THEN conjunct2, THEN conjunct2, THEN conjunct1, THEN mp, OF h8]
  note t9 = C8_Task_result_is_stored_and_given_to_the_awaiter
    [of "Throw (thrown_value 3)" "[]" "thrown_value 3" "[]" 7 "[]" 0 ?ut, THEN conjunct2, THEN conjunct2, THEN conjunct2, THEN conjunct2, THEN conjunct2, THEN conjunct2, THEN conjunct2, THEN conjunct2, THEN conjunct1, THEN mp, OF h9]
  note t10 = C8_Task_result_is_stored_and_given_to_the_awaiter
    [of "Co_return 5" "[]" "thrown_value 0" "[]" 7 "[]" 5 ?ur, THEN conjunct2, THEN conjunct2, THEN conjunct2, THEN conjunct2, THEN conjunct2, THEN conjunct2, THEN conjunct2, THEN conjunct2, THEN conjunct2, THEN conjunct1, THEN mp, OF h10]
  note t11 = C8_Task_result_is_stored_and_given_to_the_awaiter
    [of ?bs "[]" "thrown_value 0" "[]" 7 "[]" 0 ?fs "Throw (thrown_value 3)", THEN conjunct2, THEN conjunct2, THEN conjunct2, THEN conjunct2, THEN conjunct2, THEN conjunct2, THEN conjunct2, THEN conjunct2, THEN conjunct2, THEN conjunct2, THEN mp, OF h11]
  have r1: "co_await_Task 7 ?ft []
     = Some (Completes (Inl (std_exception ''boom'')),
             \<lparr>promise = \<lparr>result' = holds_exception_ptr (std_exception ''boom''),
                          continuation' = Some 7\<rparr>,
              suspended = at_final_suspend\<rparr>, [1])"
    using t1 .
  have r2: "co_await_Task 7 ?fr []
     = Some (Completes (Inr 42),
             \<lparr>promise = \<lparr>result' = holds_T 42, continuation' = Some 7\<rparr>,
              suspended = at_final_suspend\<rparr>, [1])"
    using t2 .
  have r3: "handle_resume ?ct []
     = Some (\<lparr>promise = \<lparr>result' = holds_exception_ptr (thrown_value 3),
                          continuation' = Some 7\<rparr>,
              suspended = at_final_suspend\<rparr>, [], Some 7)
     \<and> TaskAwaiter_await_resume
        \<lparr>promise = \<lparr>result' = holds_exception_ptr (thrown_value 3), continuation' = Some 7\<rparr>,
         suspended = (at_final_suspend :: int suspension)\<rparr> = Inl (thrown_value 3)"
    using t3 by simp
  have r4: "handle_resume ?cr []
     = Some (\<lparr>promise = \<lparr>result' = holds_T 5, continuation' = Some 7\<rparr>,
              suspended = at_final_suspend\<rparr>, [], Some 7)"
    using t4 by simp
  have r5: "co_await_Task 7 ?fs [] = Some (Stays_suspended, ?ct, [])"
    using t11 by (simp add: create_Task_def initial_suspend_def)
  have r6: "Task_resume ?ft [] = Some (?dt, [1], None)"
    using t5 by (simp add: create_Task_def initial_suspend_def)
  have r7: "Task_resume ?fr [] = Some (?dr, [1], None)"
    using t6 by (simp add: create_Task_def initial_suspend_def)
  have r8: "co_await_Task 7 ?dt [1] = Some (Completes (Inl (std_exception ''boom'')), ?dt, [1])"
    using t7 .
  have r9: "co_await_Task 7 ?dr [1] = Some (Completes (Inr 42), ?dr, [1])"
    using t8 .
  have r10: "co_await_Task 7 ?ut []
     = Some (Completes (Inl (thrown_value 3)),
             \<lparr>promise = \<lparr>result' = holds_exception_ptr (thrown_value 3),
                          continuation' = Some 7\<rparr>,
              suspended = at_final_suspend\<rparr>, [])"
    using t9 by simp
  have r11: "co_await_Task 7 ?ur []
     = Some (Completes (Inr 5),
             \<lparr>promise = \<lparr>result' = holds_T 5, continuation' = Some 7\<rparr>,
              suspended = at_final_suspend\<rparr>, [])"
    using t10 by simp
  from h7 have d: "handle_done ?dt" by (rule conjunct1)
  show ?thesis
    by (intro conjI;
      (rule r1 r2 r5 r3 [THEN conjunct1] r3 [THEN conjunct2] r4 r6 d r8 r7 r9 r10 r11 | simp))
qed

text \<open>
  C10. While the result slot of a \<open>Task<T>\<close> still holds \<open>std::monostate\<close>,
  \<open>get_result\<close>, and with it \<open>TaskAwaiter::await_resume\<close>, returns no value: it throws
  \<open>std::bad_variant_access\<close>. That is the state of a task just created, and a
  \<open>resume()\<close> that does not bring the task to its end leaves the slot in that state.
\<close>

theorem C10_get_result_before_completion_throws:
  "(promise_type.result' (promise c) = monostate \<longrightarrow>
      get_result (promise c) = Inl bad_variant_access \<and>
      TaskAwaiter_await_resume c = Inl bad_variant_access)
   \<and> TaskAwaiter_await_resume (fst (create_Task b w)) = Inl bad_variant_access
   \<and> (promise_type.result' (promise c) = monostate \<and> handle_resume c w = Some (c', w', n)
        \<and> \<not> handle_done c' \<longrightarrow>
      promise_type.result' (promise c') = monostate)"
proof (intro conjI impI)
  assume "promise_type.result' (promise c) = monostate"
  then show "get_result (promise c) = Inl bad_variant_access"
    and "TaskAwaiter_await_resume c = Inl bad_variant_access"
    by (simp_all add: get_result_def TaskAwaiter_await_resume_def)
next
  show "TaskAwaiter_await_resume (fst (create_Task b w)) = Inl bad_variant_access"
    by (simp add: create_Task_def initial_suspend_def TaskAwaiter_await_resume_def
        get_result_def)
next
  assume a: "promise_type.result' (promise c) = monostate \<and>
    handle_resume c w = Some (c', w', n) \<and> \<not> handle_done c'"
  then obtain b' where r: "run_coroutine c b' w = (c', w', n)"
    by (auto simp: handle_resume_def split: suspension.splits)
  show "promise_type.result' (promise c') = monostate"
  proof (cases "run_body b' w")
    case (Pair st w1)
    with r a show ?thesis
      by (cases st)
        (auto simp: run_coroutine_def co_await_final_suspend_def handle_done_def)
  qed
qed

theorem C10_witness:
  "promise_type.result' (promise (fst (create_Task (Suspend (Co_return (5 :: int))) []))) = monostate
   \<and> get_result (promise (fst (create_Task (Suspend (Co_return (5 :: int))) [])))
      = Inl bad_variant_access
   \<and> TaskAwaiter_await_resume (fst (create_Task (Suspend (Co_return (5 :: int))) []))
      = Inl bad_variant_access
   \<and> handle_resume (fst (create_Task (Suspend (Co_return (5 :: int))) [])) []
      = Some (\<lparr>promise = \<lparr>result' = monostate, continuation' = None\<rparr>,
               suspended = at_suspend (Co_return 5)\<rparr>, [], None)
   \<and> \<not> handle_done \<lparr>promise = \<lparr>result' = monostate, continuation' = None\<rparr>,
               suspended = at_suspend (Co_return (5 :: int))\<rparr>
   \<and> TaskAwaiter_await_resume \<lparr>promise = \<lparr>result' = monostate, continuation' = None\<rparr>,
               suspended = at_suspend (Co_return (5 :: int))\<rparr> = Inl bad_variant_access"
proof -
  let ?c = "fst (create_Task (Suspend (Co_return (5 :: int))) [])"
  let ?c' = "\<lparr>promise = \<lparr>result' = monostate, continuation' = None\<rparr>,
               suspended = at_suspend (Co_return (5 :: int))\<rparr>"
  have h: "promise_type.result' (promise ?c) = monostate"
    by (simp add: create_Task_def initial_suspend_def)
  have r: "handle_resume ?c [] = Some (?c', [], None)"
    by (simp add: create_Task_def initial_suspend_def handle_resume_def run_coroutine_def)
  have d: "\<not> handle_done ?c'" by (simp add: handle_done_def)
  note t = C10_get_result_before_completion_throws [of ?c "Co_return 5" "[]" ?c' "[]" None]
  note u = C10_get_result_before_completion_throws [of ?c' "Co_return 5" "[]" ?c' "[]" None]
  from t h have 1: "get_result (promise ?c) = Inl bad_variant_access"
    and 2: "TaskAwaiter_await_resume ?c = Inl bad_variant_access" by blast+
  from t h r d have 3: "promise_type.result' (promise ?c') = monostate" by blast
  from u 3 have 4: "TaskAwaiter_await_resume ?c' = Inl bad_variant_access" by blast
  from h 1 2 r d 4 show ?thesis by blast
qed

end
